theory Spec2Isabelle
  imports Main
begin

section \<open>JavaScript values, errors and the outside world\<close>

text \<open>
  The tools of \<^verbatim>\<open>med_tool.js\<close> hand an object literal to \<^verbatim>\<open>JSON.stringify\<close> and
  return the string. The model stops at the object: a payload is the value that is
  serialised. \<open>JUndefined\<close> is kept as a value, and so is a built-in function,
  \<open>JFunction\<close> with its name: the serialiser omits a member that holds either. In
  \<open>JNum\<close> only integers are represented; the code tests numbers for truthiness only,
  and every non-zero number is truthy.
\<close>

datatype jsval =
    JUndefined
  | JNull
  | JBool bool
  | JNum int
  | JStr string
  | JArr "jsval list"
  | JObj "(string \<times> jsval) list"
  | JFunction string

text \<open>\<^verbatim>\<open>!v\<close> is \<open>\<not> truthy v\<close>: arrays and objects are truthy even when empty.\<close>

fun truthy :: "jsval \<Rightarrow> bool" where
  "truthy JUndefined = False"
| "truthy JNull = False"
| "truthy (JBool b) = b"
| "truthy (JNum n) = (n \<noteq> 0)"
| "truthy (JStr s) = (s \<noteq> [])"
| "truthy (JArr vs) = True"
| "truthy (JObj kvs) = True"
| "truthy (JFunction f) = True"

text \<open>Reading a member of a payload: a missing member reads as \<open>undefined\<close>.\<close>

fun field :: "string \<Rightarrow> jsval \<Rightarrow> jsval" where
  "field k (JObj kvs) = (case map_of kvs k of None \<Rightarrow> JUndefined | Some v \<Rightarrow> v)"
| "field k v = JUndefined"

text \<open>A thrown value: every error the libraries raise is an \<^verbatim>\<open>Error\<close> with a message.\<close>

datatype js_error = Error (message: string)

text \<open>
  The bodies of the vocabulary service (RxNav), typed by its schema. A member the code
  tests before use is optional; \<open>None\<close> stands for a missing or \<^verbatim>\<open>null\<close> member. The
  name and the identifier of a concept are always strings. Strings are byte strings
  (UTF-8).
\<close>

record concept =
  rxcui :: string
  name :: string

record concept_group =
  tty :: string
  conceptProperties :: "concept list option"

record rx_group =
  conceptGroup :: "concept_group list option"

record response_data =
  drugGroup :: "rx_group option"
  allRelatedGroup :: "rx_group option"

record response =
  data :: response_data

text \<open>
  The result of the search-grounded generation call, as far as the code reads it. The
  code copies \<^verbatim>\<open>chunk.web.title\<close> and \<^verbatim>\<open>chunk.web.uri\<close> without looking at them, so
  they are kept as the values they are: a string, \<^verbatim>\<open>null\<close>, or \<open>undefined\<close> for a
  missing member.
\<close>

record web_chunk =
  uri :: jsval
  title :: jsval

record grounding_chunk =
  web :: "web_chunk option"

record grounding_metadata =
  groundingChunks :: "grounding_chunk list option"
  webSearchQueries :: "string list option"

record google_metadata =
  groundingMetadata :: "grounding_metadata option"

record provider_metadata =
  google :: "google_metadata option"

record generate_result =
  gen_text :: string
  providerMetadata :: "provider_metadata option"

text \<open>
  The outside world: what \<^verbatim>\<open>axios.get(url, {timeout})\<close> and \<^verbatim>\<open>generateText({prompt})\<close>
  answer, \<open>Inl\<close> being a rejected promise. \<open>run_agent\<close> is \<^verbatim>\<open>run(agent, query)\<close> of the
  agent framework, giving \<^verbatim>\<open>finalOutput\<close>.
\<close>

record env =
  axios_get :: "string \<Rightarrow> nat option \<Rightarrow> js_error + response"
  generateText :: "string \<Rightarrow> js_error + generate_result"
  run_agent :: "jsval \<Rightarrow> js_error + jsval"

text \<open>Every call that leaves a function is logged, in order.\<close>

datatype call =
    AxiosGet string "nat option"
  | GenerateText string
  | RunAgent jsval
  | Main jsval

type_synonym 'a outcome = "call list \<times> (js_error + 'a)"

text \<open>Sequencing of steps that may throw: the first error ends the block.\<close>

definition and_then :: "js_error + 'a \<Rightarrow> ('a \<Rightarrow> js_error + 'b) \<Rightarrow> js_error + 'b" where
  "and_then x f = (case x of Inl e \<Rightarrow> Inl e | Inr v \<Rightarrow> f v)"

text \<open>\<^verbatim>\<open>try { body } catch (error) { handler }\<close> around a whole function body.\<close>

definition try_catch :: "'a outcome \<Rightarrow> (js_error \<Rightarrow> js_error + 'a) \<Rightarrow> 'a outcome" where
  "try_catch body handler =
     (case snd body of Inl e \<Rightarrow> (fst body, handler e) | Inr v \<Rightarrow> (fst body, Inr v))"

subsection \<open>Small pieces of the language\<close>

text \<open>\<^verbatim>\<open>xs[0]\<close>: \<open>undefined\<close> on an empty array.\<close>

definition first_elem :: "'a list \<Rightarrow> 'a option" where
  "first_elem xs = (case xs of [] \<Rightarrow> None | x # _ \<Rightarrow> Some x)"

text \<open>\<^verbatim>\<open>a || b\<close> on objects that may be \<open>undefined\<close>.\<close>

definition or_else :: "'a option \<Rightarrow> 'a option \<Rightarrow> 'a option" where
  "or_else a b = (case a of Some x \<Rightarrow> Some x | None \<Rightarrow> b)"

text \<open>\<^verbatim>\<open>holder?.conceptGroup\<close>, an array (always truthy) or nothing.\<close>

definition concept_groups :: "rx_group option \<Rightarrow> concept_group list option" where
  "concept_groups h = (case h of None \<Rightarrow> None | Some g \<Rightarrow> conceptGroup g)"

definition str_or_null :: "string option \<Rightarrow> jsval" where
  "str_or_null s = (case s of None \<Rightarrow> JNull | Some v \<Rightarrow> JStr v)"

text \<open>
  \<^verbatim>\<open>encodeURIComponent\<close> on a byte string: every byte outside the unreserved set becomes
  \<open>%XX\<close>. (On a UTF-16 string with a lone surrogate the built-in throws; a byte string
  has none.)
\<close>

definition unreserved :: "char \<Rightarrow> bool" where
  "unreserved c =
     (c \<in> set ''ABCDEFGHIJKLMNOPQRSTUVWXYZabcdefghijklmnopqrstuvwxyz0123456789-_.!~*'()'')"

definition hex_digit :: "nat \<Rightarrow> char" where
  "hex_digit n = ''0123456789ABCDEF'' ! (n mod 16)"

definition encode_char :: "char \<Rightarrow> string" where
  "encode_char c =
     (if unreserved c then [c]
      else [CHR ''%'', hex_digit (of_char c div 16), hex_digit (of_char c mod 16)])"

definition encodeURIComponent :: "string \<Rightarrow> string" where
  "encodeURIComponent s = concat (map encode_char s)"

definition drugs_url :: "string \<Rightarrow> string" where
  "drugs_url medicineName =
     ''https://rxnav.nlm.nih.gov/REST/drugs.json?name='' @ encodeURIComponent medicineName"

definition allrelated_url :: "string \<Rightarrow> string" where
  "allrelated_url targetRxcui =
     ''https://rxnav.nlm.nih.gov/REST/rxcui/'' @ targetRxcui @ ''/allrelated.json''"

text \<open>The \<^verbatim>\<open>TypeError\<close> of reading a member of \<^verbatim>\<open>undefined\<close>.\<close>

definition undefined_member :: "string \<Rightarrow> js_error" where
  "undefined_member m = Error (''Cannot read properties of undefined (reading '' @ [CHR 0x27] @ m @ [CHR 0x27] @ '')'')"

text \<open>\<^verbatim>\<open>group.conceptProperties[0].name\<close>\<close>

definition name_of_first :: "concept list \<Rightarrow> js_error + string" where
  "name_of_first cp =
     (case first_elem cp of None \<Rightarrow> Inl (undefined_member ''name'') | Some p \<Rightarrow> Inr (name p))"

section \<open>The primary tool: \<^verbatim>\<open>find_generic_with_prices\<close>\<close>

subsection \<open>Step 1: the vocabulary lookup\<close>

text \<open>
  The three locals of the first loop. Each is set at most once to a concept: the guard
  \<^verbatim>\<open>!genericDrug\<close> stays true while the local is \<open>undefined\<close>, which is also what
  \<^verbatim>\<open>conceptProperties[0]\<close> of an empty array stores.
\<close>

record selection =
  genericDrug :: "concept option"
  brandedDrug :: "concept option"
  ingredient :: "concept option"

definition scan_group :: "selection \<Rightarrow> concept_group \<Rightarrow> selection" where
  "scan_group s g =
     (case conceptProperties g of
        None \<Rightarrow> s
      | Some cp \<Rightarrow>
          (let s1 = (if tty g = ''SCD'' \<and> genericDrug s = None
                     then s\<lparr>genericDrug := first_elem cp\<rparr> else s);
               s2 = (if tty g = ''SBD'' \<and> brandedDrug s1 = None
                     then s1\<lparr>brandedDrug := first_elem cp\<rparr> else s1)
           in (if tty g = ''IN'' \<and> ingredient s2 = None
               then s2\<lparr>ingredient := first_elem cp\<rparr> else s2)))"

definition scan_groups :: "concept_group list \<Rightarrow> selection" where
  "scan_groups groups =
     foldl scan_group \<lparr>genericDrug = None, brandedDrug = None, ingredient = None\<rparr> groups"

record api_result =
  genericName :: "string option"
  brandNames :: "string list"
  activeIngredient :: "string option"
  dosageForm :: "string option"

text \<open>
  One round of the second loop: four tests in a row, none guarded by what is already
  stored, and three of them reading \<^verbatim>\<open>conceptProperties[0].name\<close>.
\<close>

definition related_group :: "api_result \<Rightarrow> concept_group \<Rightarrow> js_error + api_result" where
  "related_group r g =
     (case conceptProperties g of
        None \<Rightarrow> Inr r
      | Some cp \<Rightarrow>
          and_then (if tty g = ''IN''
                    then and_then (name_of_first cp) (\<lambda>n. Inr (r\<lparr>activeIngredient := Some n\<rparr>))
                    else Inr r) (\<lambda>r1.
          and_then (if tty g = ''SCD''
                    then and_then (name_of_first cp) (\<lambda>n. Inr (r1\<lparr>genericName := Some n\<rparr>))
                    else Inr r1) (\<lambda>r2.
          and_then (Inr (if tty g = ''BN''
                         then r2\<lparr>brandNames := map name (take 5 cp)\<rparr> else r2)) (\<lambda>r3.
          (if tty g = ''DF''
           then and_then (name_of_first cp) (\<lambda>n. Inr (r3\<lparr>dosageForm := Some n\<rparr>))
           else Inr r3)))))"

fun related_groups :: "concept_group list \<Rightarrow> api_result \<Rightarrow> js_error + api_result" where
  "related_groups [] r = Inr r"
| "related_groups (g # gs) r = and_then (related_group r g) (related_groups gs)"

definition empty_api_result :: api_result where
  "empty_api_result =
     \<lparr>genericName = None, brandNames = [], activeIngredient = None, dosageForm = None\<rparr>"

text \<open>
  The body of the first \<^verbatim>\<open>try\<close>: the value is what \<^verbatim>\<open>result.apiData\<close> holds when the
  block ends normally (it is assigned on the last line of the innermost branch only).
\<close>

definition rxnav_lookup :: "env \<Rightarrow> string \<Rightarrow> (api_result option) outcome" where
  "rxnav_lookup env medicineName =
     (let searchUrl = drugs_url medicineName;
          c1 = AxiosGet searchUrl (Some 5000)
      in case axios_get env searchUrl (Some 5000) of
           Inl e \<Rightarrow> ([c1], Inl e)
         | Inr searchResponse \<Rightarrow>
             (case concept_groups (drugGroup (data searchResponse)) of
                None \<Rightarrow> ([c1], Inr None)
              | Some groups \<Rightarrow>
                  (let s = scan_groups groups
                   in case or_else (genericDrug s) (brandedDrug s) of
                        None \<Rightarrow> ([c1], Inr None)
                      | Some target \<Rightarrow>
                          (let relatedUrl = allrelated_url (rxcui target);
                               c2 = AxiosGet relatedUrl (Some 5000)
                           in case axios_get env relatedUrl (Some 5000) of
                                Inl e \<Rightarrow> ([c1, c2], Inl e)
                              | Inr relatedResponse \<Rightarrow>
                                  (case concept_groups (allRelatedGroup (data relatedResponse)) of
                                     None \<Rightarrow> ([c1, c2], Inr None)
                                   | Some rgroups \<Rightarrow>
                                       ([c1, c2],
                                        and_then (related_groups rgroups empty_api_result)
                                          (\<lambda>apiResult. Inr (Some apiResult))))))))"

subsection \<open>Step 2: the price search\<close>

definition newline :: string where
  "newline = [CHR 0x0A]"

text \<open>The rupee sign, U+20B9, in UTF-8.\<close>

definition rupee :: string where
  "rupee = [CHR 0xE2, CHR 0x82, CHR 0xB9]"

definition searchPrompt :: "string \<Rightarrow> string \<Rightarrow> string" where
  \<open>searchPrompt medicineName saltName =
     ''Find current medicine prices in India for "'' @ medicineName @ ''" (salt: '' @ saltName @ ''):'' @ newline
     @ newline
     @ ''IMPORTANT: Return factual price data. Search for:'' @ newline
     @ ''1. Branded medicine price from 1mg.com or Apollo Pharmacy'' @ newline
     @ ''2. Generic alternatives with prices'' @ newline
     @ ''3. At least 5 alternative generic brands with prices'' @ newline
     @ newline
     @ ''For EACH medicine, provide:'' @ newline
     @ ''- Name'' @ newline
     @ ''- Price in INR ('' @ rupee @ '')'' @ newline
     @ ''- Source (1mg, Apollo, Jan Aushadhi, etc.)'' @ newline
     @ newline
     @ ''Format the prices clearly in INR ('' @ rupee @ ''). Include per-tablet and per-strip prices where available. Do NOT include purchase links or how to buy information.''\<close>

text \<open>\<^verbatim>\<open>providerMetadata?.google?.groundingMetadata\<close>\<close>

definition grounding_of :: "generate_result \<Rightarrow> grounding_metadata option" where
  "grounding_of res =
     (case providerMetadata res of
        None \<Rightarrow> None
      | Some pm \<Rightarrow> (case google pm of None \<Rightarrow> None | Some metadata \<Rightarrow> groundingMetadata metadata))"

text \<open>The object literal \<^verbatim>\<open>{title: chunk.web.title, url: chunk.web.uri}\<close>; read only after
  the filter has kept the chunks with a \<^verbatim>\<open>web\<close> member.\<close>

definition source_of :: "grounding_chunk \<Rightarrow> jsval" where
  "source_of chunk =
     JObj [(''title'', title (the (web chunk))),
           (''url'', uri (the (web chunk)))]"

text \<open>\<^verbatim>\<open>let sources = []; if (groundingMetadata?.groundingChunks) sources = ...filter...slice(0, 5)...map\<close>\<close>

definition extract_sources :: "grounding_metadata option \<Rightarrow> jsval list" where
  "extract_sources gm =
     (case gm of
        None \<Rightarrow> []
      | Some m \<Rightarrow>
          (case groundingChunks m of
             None \<Rightarrow> []
           | Some chunks \<Rightarrow> map source_of (take 5 (filter (\<lambda>chunk. web chunk \<noteq> None) chunks))))"

text \<open>\<^verbatim>\<open>groundingMetadata?.webSearchQueries || []\<close>\<close>

definition search_queries :: "grounding_metadata option \<Rightarrow> jsval list" where
  "search_queries gm =
     (case gm of
        None \<Rightarrow> []
      | Some m \<Rightarrow> (case webSearchQueries m of None \<Rightarrow> [] | Some qs \<Rightarrow> map JStr qs))"

text \<open>\<^verbatim>\<open>result.apiData?.activeIngredient || medicineName\<close>: an empty name is falsy too.\<close>

definition salt_name :: "api_result option \<Rightarrow> string \<Rightarrow> string" where
  "salt_name apiData medicineName =
     (case apiData of
        None \<Rightarrow> medicineName
      | Some a \<Rightarrow>
          (case activeIngredient a of
             None \<Rightarrow> medicineName
           | Some i \<Rightarrow> if i = [] then medicineName else i))"

text \<open>The second \<^verbatim>\<open>try\<close> with its \<^verbatim>\<open>catch\<close>: the value is \<^verbatim>\<open>result.indianPrices\<close>.\<close>

definition price_search :: "env \<Rightarrow> string \<Rightarrow> api_result option \<Rightarrow> call list \<times> jsval" where
  "price_search env medicineName apiData =
     (let prompt = searchPrompt medicineName (salt_name apiData medicineName)
      in case generateText env prompt of
           Inl searchError \<Rightarrow>
             ([GenerateText prompt], JObj [(''error'', JStr (message searchError))])
         | Inr res \<Rightarrow>
             ([GenerateText prompt],
              JObj [(''data'', JStr (gen_text res)),
                    (''sources'', JArr (extract_sources (grounding_of res))),
                    (''searchQueries'', JArr (search_queries (grounding_of res)))]))"

subsection \<open>The merged payload\<close>

definition api_to_js :: "api_result option \<Rightarrow> jsval" where
  "api_to_js apiData =
     (case apiData of
        None \<Rightarrow> JNull
      | Some a \<Rightarrow>
          JObj [(''genericName'', str_or_null (genericName a)),
                (''brandNames'', JArr (map JStr (brandNames a))),
                (''activeIngredient'', str_or_null (activeIngredient a)),
                (''dosageForm'', str_or_null (dosageForm a))])"

definition jan_aushadhi_tip :: string where
  "jan_aushadhi_tip = ''Jan Aushadhi Kendras offer the cheapest generic medicines. Find stores at janaushadhi.gov.in or call 1800-180-8080''"

text \<open>
  What \<^verbatim>\<open>result.apiData\<close> is after the first \<^verbatim>\<open>try\<close>/\<^verbatim>\<open>catch\<close>: the catch only logs
  \<^verbatim>\<open>apiError.message\<close> to the console, so a failed lookup leaves the initial \<^verbatim>\<open>null\<close>.
\<close>

definition api_data_after :: "js_error + api_result option \<Rightarrow> api_result option" where
  "api_data_after r = (case r of Inl apiError \<Rightarrow> None | Inr a \<Rightarrow> a)"

definition findGenericWithPrices :: "env \<Rightarrow> string \<Rightarrow> jsval outcome" where
  "findGenericWithPrices env medicineName =
     (let step1 = rxnav_lookup env medicineName;
          apiData = api_data_after (snd step1);
          step2 = price_search env medicineName apiData
      in (fst step1 @ fst step2,
          Inr (JObj [(''success'', JBool True),
                     (''medicine'', JStr medicineName),
                     (''apiData'', api_to_js apiData),
                     (''indianPrices'', snd step2),
                     (''tip'', JStr jan_aushadhi_tip)])))"

section \<open>The backup tools\<close>

subsection \<open>\<^verbatim>\<open>search_medicine\<close>\<close>

text \<open>
  \<^verbatim>\<open>descriptions[tty] || tty\<close>, on a plain object. Every description is a non-empty
  string. A key that is not in the table still finds what every object inherits: for
  the names below a built-in function, and for \<^verbatim>\<open>__proto__\<close> the prototype object, which
  has no member of its own to serialise. Both are truthy, so the fallback to \<open>tty\<close> is
  taken for all other keys only.
\<close>

definition descriptions :: "(string \<times> string) list" where
  "descriptions =
     [(''SCD'', ''Generic Drug (Recommended - Same quality, lower cost)''),
      (''SBD'', ''Branded Drug (More expensive)''),
      (''BN'', ''Brand Name''),
      (''IN'', ''Active Ingredient''),
      (''MIN'', ''Multiple Ingredients''),
      (''DF'', ''Dosage Form''),
      (''SCDC'', ''Generic Drug Component''),
      (''SBDC'', ''Branded Drug Component'')]"

definition inherited_functions :: "string list" where
  "inherited_functions =
     [''constructor'', ''toString'', ''toLocaleString'', ''valueOf'', ''hasOwnProperty'',
      ''isPrototypeOf'', ''propertyIsEnumerable'', ''__defineGetter__'', ''__defineSetter__'',
      ''__lookupGetter__'', ''__lookupSetter__'']"

definition getTypeDescription :: "string \<Rightarrow> jsval" where
  "getTypeDescription t =
     (case map_of descriptions t of
        Some d \<Rightarrow> JStr d
      | None \<Rightarrow>
          (if t \<in> set inherited_functions then JFunction t
           else if t = ''__proto__'' then JObj []
           else JStr t))"

definition search_entry :: "concept_group \<Rightarrow> concept \<Rightarrow> jsval" where
  "search_entry grp drug =
     JObj [(''rxcui'', JStr (rxcui drug)),
           (''name'', JStr (name drug)),
           (''type'', JStr (tty grp)),
           (''typeDescription'', getTypeDescription (tty grp))]"

text \<open>The two nested loops; \<^verbatim>\<open>results.push(x)\<close> appends at the end.\<close>

definition push_group :: "jsval list \<Rightarrow> concept_group \<Rightarrow> jsval list" where
  "push_group results grp =
     (case conceptProperties grp of
        None \<Rightarrow> results
      | Some cp \<Rightarrow> foldl (\<lambda>res drug. res @ [search_entry grp drug]) results cp)"

definition collect_results :: "concept_group list \<Rightarrow> jsval list" where
  "collect_results groups = foldl push_group [] groups"

definition not_found_message :: "string \<Rightarrow> string" where
  \<open>not_found_message medicineName =
     ''Could not find medicine "'' @ medicineName @ ''". Please check the spelling or try the generic name.''\<close>

definition name_suggestion :: string where
  "name_suggestion = ''Common generic names: Paracetamol=Acetaminophen, Ibuprofen, Aspirin, Metformin, Omeprazole''"

text \<open>The \<^verbatim>\<open>catch (error)\<close> block that six of the seven tools share.\<close>

definition failure_payload :: "js_error \<Rightarrow> js_error + jsval" where
  "failure_payload error = Inr (JObj [(''success'', JBool False), (''error'', JStr (message error))])"

definition searchMedicine_body :: "env \<Rightarrow> string \<Rightarrow> jsval outcome" where
  "searchMedicine_body env medicineName =
     (let searchUrl = drugs_url medicineName
      in case axios_get env searchUrl None of
           Inl e \<Rightarrow> ([AxiosGet searchUrl None], Inl e)
         | Inr response \<Rightarrow>
             ([AxiosGet searchUrl None],
              (case concept_groups (drugGroup (data response)) of
                 None \<Rightarrow>
                   Inr (JObj [(''success'', JBool False),
                              (''message'', JStr (not_found_message medicineName)),
                              (''suggestion'', JStr name_suggestion)])
               | Some groups \<Rightarrow>
                   (let results = collect_results groups
                    in Inr (JObj [(''success'', JBool True),
                                  (''searchTerm'', JStr medicineName),
                                  (''results'', JArr (take 10 results)),
                                  (''totalFound'', JNum (int (length results)))])))))"

definition searchMedicine :: "env \<Rightarrow> string \<Rightarrow> jsval outcome" where
  "searchMedicine env medicineName = try_catch (searchMedicine_body env medicineName) failure_payload"

subsection \<open>\<^verbatim>\<open>get_medicine_details\<close>\<close>

text \<open>\<^verbatim>\<open>obj.k = v\<close> on an object literal: an existing member keeps its place.\<close>

fun assign :: "string \<Rightarrow> jsval \<Rightarrow> (string \<times> jsval) list \<Rightarrow> (string \<times> jsval) list" where
  "assign k v [] = [(k, v)]"
| "assign k v ((k', v') # kvs) = (if k = k' then (k, v) # kvs else (k', v') # assign k v kvs)"

definition name_rxcui :: "concept \<Rightarrow> jsval" where
  "name_rxcui p = JObj [(''name'', JStr (name p)), (''rxcui'', JStr (rxcui p))]"

definition typed_entry :: "string \<Rightarrow> concept \<Rightarrow> jsval" where
  "typed_entry t p = JObj [(''name'', JStr (name p)), (''rxcui'', JStr (rxcui p)), (''type'', JStr t)]"

definition details_group :: "(string \<times> jsval) list \<Rightarrow> concept_group \<Rightarrow> (string \<times> jsval) list" where
  "details_group result grp =
     (case conceptProperties grp of
        None \<Rightarrow> result
      | Some cp \<Rightarrow>
          (if tty grp = ''IN'' then assign ''ingredient'' (JArr (map name_rxcui cp)) result
           else if tty grp = ''SCD''
             then assign ''genericDrug'' (JArr (map (typed_entry ''GENERIC'') cp)) result
           else if tty grp = ''BN'' then assign ''brandNames'' (JArr (map name_rxcui cp)) result
           else if tty grp = ''SBD''
             then assign ''brandedDrugs'' (JArr (map (typed_entry ''BRANDED'') cp)) result
           else if tty grp = ''DF''
             then assign ''dosageForm'' (JArr (map (\<lambda>p. JStr (name p)) cp)) result
           else result))"

definition getMedicineDetails_body :: "env \<Rightarrow> string \<Rightarrow> jsval outcome" where
  "getMedicineDetails_body env rx =
     (let detailsUrl = allrelated_url rx
      in case axios_get env detailsUrl None of
           Inl e \<Rightarrow> ([AxiosGet detailsUrl None], Inl e)
         | Inr response \<Rightarrow>
             ([AxiosGet detailsUrl None],
              (case concept_groups (allRelatedGroup (data response)) of
                 None \<Rightarrow>
                   Inr (JObj [(''success'', JBool False),
                              (''message'', JStr ''Could not find detailed information for this medicine.'')])
               | Some groups \<Rightarrow>
                   (let result = foldl details_group
                                   [(''rxcui'', JStr rx), (''ingredient'', JNull),
                                    (''genericDrug'', JNull), (''brandNames'', JArr []),
                                    (''brandedDrugs'', JArr []), (''dosageForm'', JNull)] groups
                    in Inr (JObj [(''success'', JBool True),
                                  (''data'', JObj result),
                                  (''recommendation'', JStr ''The GENERIC option (SCD type) has the same active ingredient and dosage as branded versions but typically costs much less.'')])))))"

definition getMedicineDetails :: "env \<Rightarrow> string \<Rightarrow> jsval outcome" where
  "getMedicineDetails env rx = try_catch (getMedicineDetails_body env rx) failure_payload"

subsection \<open>\<^verbatim>\<open>find_generic_equivalent\<close>\<close>

text \<open>\<^verbatim>\<open>names.join(', ')\<close>\<close>

fun join :: "string \<Rightarrow> string list \<Rightarrow> string" where
  "join sep [] = []"
| "join sep [x] = x"
| "join sep (x # y # ys) = x @ sep @ join sep (y # ys)"

text \<open>\<^verbatim>\<open>b.name.split('[')[1]?.replace(']', '') || b.name\<close>: the piece between the first and
  the second opening bracket, without its first closing bracket.\<close>

definition second_piece :: "string \<Rightarrow> string option" where
  "second_piece s =
     (case dropWhile (\<lambda>c. c \<noteq> CHR ''['') s of
        [] \<Rightarrow> None
      | _ # rest \<Rightarrow> Some (takeWhile (\<lambda>c. c \<noteq> CHR ''['') rest))"

definition brand_label :: "string \<Rightarrow> string" where
  "brand_label s =
     (case second_piece s of
        None \<Rightarrow> s
      | Some piece \<Rightarrow> (if remove1 (CHR '']'') piece = [] then s else remove1 (CHR '']'') piece))"

definition equivalent_group :: "(string \<times> jsval) list \<Rightarrow> concept_group \<Rightarrow> (string \<times> jsval) list" where
  "equivalent_group result grp =
     (case conceptProperties grp of
        None \<Rightarrow> result
      | Some cp \<Rightarrow>
          (let r1 = (if tty grp = ''IN''
                     then assign ''activeIngredient'' (JStr (join '', '' (map name cp))) result
                     else result);
               r2 = (if tty grp = ''SCD''
                     then assign ''genericVersion'' (JArr (map name_rxcui cp)) r1 else r1)
           in (if tty grp = ''SBD''
               then assign ''brandedVersions'' (JArr (map name_rxcui cp)) r2 else r2)))"

definition savings_message :: string where
  "savings_message = ''Generic medicines contain the EXACT SAME active ingredient in the EXACT SAME dosage as branded medicines. They are equally safe and effective but cost much less!''"

text \<open>The label of a stored branded version; its \<open>name\<close> member is always a string.\<close>

definition avoid_label :: "jsval \<Rightarrow> jsval" where
  "avoid_label b = (case field ''name'' b of JStr s \<Rightarrow> JStr (brand_label s) | v \<Rightarrow> v)"

definition array_items :: "jsval \<Rightarrow> jsval list" where
  "array_items v = (case v of JArr xs \<Rightarrow> xs | _ \<Rightarrow> [])"

definition add_recommendation :: "(string \<times> jsval) list \<Rightarrow> (string \<times> jsval) list" where
  "add_recommendation result =
     (case field ''genericVersion'' (JObj result) of
        JArr (g # gs) \<Rightarrow>
          assign ''recommendation''
            (JObj [(''buyThis'', field ''name'' g),
                   (''activeIngredient'', field ''activeIngredient'' (JObj result)),
                   (''avoidTheseBrands'',
                    JArr (map avoid_label (array_items (field ''brandedVersions'' (JObj result))))),
                   (''savingsMessage'', JStr savings_message)])
            result
      | _ \<Rightarrow> result)"

text \<open>The first loop stops at the first group that has a concept list and is a generic or
  a branded formulation, and reads its first concept.\<close>

definition equivalent_target :: "concept_group list \<Rightarrow> js_error + concept option" where
  "equivalent_target groups =
     (case find (\<lambda>grp. conceptProperties grp \<noteq> None \<and> (tty grp = ''SCD'' \<or> tty grp = ''SBD'')) groups of
        None \<Rightarrow> Inr None
      | Some grp \<Rightarrow>
          (case first_elem (the (conceptProperties grp)) of
             None \<Rightarrow> Inl (undefined_member ''rxcui'')
           | Some p \<Rightarrow> Inr (Some p)))"

definition findGenericEquivalent_body :: "env \<Rightarrow> string \<Rightarrow> jsval outcome" where
  \<open>findGenericEquivalent_body env brandName =
     (let searchUrl = drugs_url brandName;
          c1 = AxiosGet searchUrl None
      in case axios_get env searchUrl None of
           Inl e \<Rightarrow> ([c1], Inl e)
         | Inr searchResponse \<Rightarrow>
             (case concept_groups (drugGroup (data searchResponse)) of
                None \<Rightarrow>
                  ([c1], Inr (JObj [(''success'', JBool False),
                                    (''message'', JStr (''Could not find "'' @ brandName @ ''". Try searching with just the medicine name without dosage.''))]))
              | Some groups \<Rightarrow>
                  (case equivalent_target groups of
                     Inl e \<Rightarrow> ([c1], Inl e)
                   | Inr target \<Rightarrow>
                       (if (case target of None \<Rightarrow> True | Some p \<Rightarrow> rxcui p = [])
                        then ([c1], Inr (JObj [(''success'', JBool False),
                                               (''message'', JStr ''Could not identify a specific drug formulation. Please provide more details like dosage.'')]))
                        else
                          (let relatedUrl = allrelated_url (rxcui (the target));
                               c2 = AxiosGet relatedUrl None
                           in case axios_get env relatedUrl None of
                                Inl e \<Rightarrow> ([c1, c2], Inl e)
                              | Inr relatedResponse \<Rightarrow>
                                  (let result0 = [(''searchedFor'', JStr brandName),
                                                  (''identifiedAs'', JStr (name (the target))),
                                                  (''activeIngredient'', JNull),
                                                  (''genericVersion'', JNull),
                                                  (''brandedVersions'', JArr []),
                                                  (''recommendation'', JNull)];
                                       result1 = (case concept_groups (allRelatedGroup (data relatedResponse)) of
                                                    None \<Rightarrow> result0
                                                  | Some rgroups \<Rightarrow> foldl equivalent_group result0 rgroups)
                                   in ([c1, c2],
                                       Inr (JObj [(''success'', JBool True),
                                                  (''data'', JObj (add_recommendation result1))]))))))))\<close>

definition findGenericEquivalent :: "env \<Rightarrow> string \<Rightarrow> jsval outcome" where
  "findGenericEquivalent env brandName =
     try_catch (findGenericEquivalent_body env brandName) failure_payload"

subsection \<open>\<^verbatim>\<open>get_available_dosages\<close>\<close>

text \<open>\<^verbatim>\<open>s.includes(sub)\<close>: \<open>sub\<close> occurs in \<open>s\<close> as a contiguous piece.\<close>

fun starts_with :: "string \<Rightarrow> string \<Rightarrow> bool" where
  "starts_with s [] = True"
| "starts_with [] (p # ps) = False"
| "starts_with (c # cs) (p # ps) = (c = p \<and> starts_with cs ps)"

fun str_includes :: "string \<Rightarrow> string \<Rightarrow> bool" where
  "str_includes [] sub = (sub = [])"
| "str_includes (c # cs) sub = (starts_with (c # cs) sub \<or> str_includes cs sub)"

definition push_dosage :: "jsval list \<Rightarrow> concept \<Rightarrow> jsval list" where
  "push_dosage genericDosages drug =
     (if \<not> str_includes (name drug) '' / '' then genericDosages @ [name_rxcui drug]
      else genericDosages)"

definition dosage_group :: "jsval list \<Rightarrow> concept_group \<Rightarrow> jsval list" where
  "dosage_group genericDosages grp =
     (if tty grp = ''SCD''
      then (case conceptProperties grp of
              None \<Rightarrow> genericDosages
            | Some cp \<Rightarrow> foldl push_dosage genericDosages cp)
      else genericDosages)"

definition dosages_note :: string where
  "dosages_note = ''These are pure generic formulations without combination drugs. Ask your doctor which dosage is right for you.''"

definition getAvailableDosages_body :: "env \<Rightarrow> string \<Rightarrow> jsval outcome" where
  \<open>getAvailableDosages_body env ingredientName =
     (let searchUrl = drugs_url ingredientName
      in case axios_get env searchUrl None of
           Inl e \<Rightarrow> ([AxiosGet searchUrl None], Inl e)
         | Inr response \<Rightarrow>
             ([AxiosGet searchUrl None],
              (case concept_groups (drugGroup (data response)) of
                 None \<Rightarrow>
                   Inr (JObj [(''success'', JBool False),
                              (''message'', JStr (''Could not find dosages for "'' @ ingredientName @ ''".''))])
               | Some groups \<Rightarrow>
                   Inr (JObj [(''success'', JBool True),
                              (''ingredient'', JStr ingredientName),
                              (''availableGenericFormulations'', JArr (foldl dosage_group [] groups)),
                              (''note'', JStr dosages_note)]))))\<close>

definition getAvailableDosages :: "env \<Rightarrow> string \<Rightarrow> jsval outcome" where
  "getAvailableDosages env ingredientName =
     try_catch (getAvailableDosages_body env ingredientName) failure_payload"

subsection \<open>\<^verbatim>\<open>web_search_medicine\<close> and \<^verbatim>\<open>search_india_medicine\<close>\<close>

definition webSearchPrompt :: "string \<Rightarrow> string" where
  "webSearchPrompt searchQuery =
     ''Search for: '' @ searchQuery @ newline
     @ ''        '' @ newline
     @ ''Please provide accurate, up-to-date information about:'' @ newline
     @ ''1. Medicine prices (if asked)'' @ newline
     @ ''2. Comparison between generic and branded prices'' @ newline
     @ ''3. Any relevant warnings or information'' @ newline
     @ newline
     @ ''Focus on helping people find affordable medicine options. Do NOT include purchase links or how to buy information.''"

text \<open>The same extraction without \<^verbatim>\<open>slice(0, 5)\<close>.\<close>

definition all_sources :: "grounding_metadata option \<Rightarrow> jsval list" where
  "all_sources gm =
     (case gm of
        None \<Rightarrow> []
      | Some m \<Rightarrow>
          (case groundingChunks m of
             None \<Rightarrow> []
           | Some chunks \<Rightarrow> map source_of (filter (\<lambda>chunk. web chunk \<noteq> None) chunks)))"

definition webSearchMedicine_body :: "env \<Rightarrow> string \<Rightarrow> jsval outcome" where
  "webSearchMedicine_body env searchQuery =
     (let prompt = webSearchPrompt searchQuery
      in case generateText env prompt of
           Inl e \<Rightarrow> ([GenerateText prompt], Inl e)
         | Inr res \<Rightarrow>
             ([GenerateText prompt],
              Inr (JObj [(''success'', JBool True),
                         (''searchQuery'', JStr searchQuery),
                         (''result'', JStr (gen_text res)),
                         (''sources'', JArr (all_sources (grounding_of res))),
                         (''searchQueries'', JArr (search_queries (grounding_of res)))])))"

definition webSearchMedicine :: "env \<Rightarrow> string \<Rightarrow> jsval outcome" where
  "webSearchMedicine env searchQuery =
     try_catch (webSearchMedicine_body env searchQuery)
       (\<lambda>error. Inr (JObj [(''success'', JBool False),
                            (''error'', JStr (message error)),
                            (''suggestion'', JStr ''Try rephrasing your search query or check your internet connection.'')]))"

definition indiaSearchPrompt :: "string \<Rightarrow> string" where
  \<open>indiaSearchPrompt medicineName =
     ''Search for information about "'' @ medicineName @ ''" medicine in India:'' @ newline
     @ newline
     @ ''1. What is the generic name and salt composition?'' @ newline
     @ ''2. What is the approximate price range for generic vs branded versions in India?'' @ newline
     @ ''3. Is it available at Jan Aushadhi Kendras (government generic medicine stores)?'' @ newline
     @ ''4. What are the popular generic brands available in India?'' @ newline
     @ ''5. Any important information patients should know?'' @ newline
     @ newline
     @ ''Focus on helping Indian patients find affordable generic alternatives. Include specific Indian brand names and prices in INR if available.''\<close>

definition searchIndiaMedicine_body :: "env \<Rightarrow> string \<Rightarrow> jsval outcome" where
  "searchIndiaMedicine_body env medicineName =
     (let prompt = indiaSearchPrompt medicineName
      in case generateText env prompt of
           Inl e \<Rightarrow> ([GenerateText prompt], Inl e)
         | Inr res \<Rightarrow>
             ([GenerateText prompt],
              Inr (JObj [(''success'', JBool True),
                         (''medicine'', JStr medicineName),
                         (''country'', JStr ''India''),
                         (''result'', JStr (gen_text res)),
                         (''sources'', JArr (extract_sources (grounding_of res))),
                         (''tip'', JStr ''Visit your nearest Jan Aushadhi Kendra for the cheapest generic medicines. Find stores at: janaushadhi.gov.in'')])))"

definition searchIndiaMedicine :: "env \<Rightarrow> string \<Rightarrow> jsval outcome" where
  "searchIndiaMedicine env medicineName =
     try_catch (searchIndiaMedicine_body env medicineName) failure_payload"

section \<open>The orchestrator entry and the HTTP endpoint\<close>

text \<open>
  \<^verbatim>\<open>async function main(query = "")\<close>: a falsy query returns \<open>undefined\<close> without
  running the agent; otherwise the agent's final output is returned, and an error of
  the agent run is thrown on.
\<close>

definition main :: "env \<Rightarrow> jsval \<Rightarrow> jsval outcome" where
  "main env query =
     (if \<not> truthy query then ([], Inr JUndefined)
      else (case run_agent env query of
              Inl e \<Rightarrow> ([RunAgent query], Inl e)
            | Inr finalOutput \<Rightarrow> ([RunAgent query], Inr finalOutput)))"

record http_response =
  status :: nat
  json :: jsval

definition internal_error :: http_response where
  "internal_error =
     \<lparr>status = 500,
      json = JObj [(''success'', JBool False),
                   (''error'', JStr ''Failed to process your request. Please try again.'')]\<rparr>"

text \<open>
  The handler of \<^verbatim>\<open>POST /api/search\<close>, from the parsed request body. Destructuring
  \<^verbatim>\<open>const { query } = req.body\<close> throws on \<open>undefined\<close> and \<open>null\<close>, inside the
  \<^verbatim>\<open>try\<close>; on any other value it reads the member. A response without an explicit
  status has status 200.
\<close>

definition api_search :: "env \<Rightarrow> jsval \<Rightarrow> call list \<times> http_response" where
  "api_search env req_body =
     (if req_body = JUndefined \<or> req_body = JNull then ([], internal_error)
      else (let query = field ''query'' req_body
            in if \<not> truthy query
               then ([], \<lparr>status = 400, json = JObj [(''error'', JStr ''Query is required'')]\<rparr>)
               else (case snd (main env query) of
                       Inl error \<Rightarrow> (Main query # fst (main env query), internal_error)
                     | Inr result \<Rightarrow>
                         (Main query # fst (main env query),
                          \<lparr>status = 200,
                           json = JObj [(''success'', JBool True), (''result'', result)]\<rparr>))))"

section \<open>Notions used to state the properties\<close>

text \<open>The payload a tool returned (\<open>undefined\<close> stands for a call that threw).\<close>

definition payload_of :: "jsval outcome \<Rightarrow> jsval" where
  "payload_of r = (case snd r of Inl e \<Rightarrow> JUndefined | Inr p \<Rightarrow> p)"

text \<open>All concepts of one term type in a response, in the order the service sent them:
  group by group, and inside a group concept by concept.\<close>

definition concepts_of_type :: "string \<Rightarrow> concept_group list \<Rightarrow> concept list" where
  "concepts_of_type t groups =
     concat (map (\<lambda>g. if tty g = t
                      then (case conceptProperties g of None \<Rightarrow> [] | Some cp \<Rightarrow> cp)
                      else []) groups)"

text \<open>First-seen: the first concept of a type in that order.\<close>

definition first_seen :: "string \<Rightarrow> concept_group list \<Rightarrow> concept option" where
  "first_seen t groups = first_elem (concepts_of_type t groups)"

text \<open>The last group of a type that carries a concept list.\<close>

definition last_group :: "string \<Rightarrow> concept_group list \<Rightarrow> concept_group option" where
  "last_group t groups =
     first_elem (rev (filter (\<lambda>g. tty g = t \<and> conceptProperties g \<noteq> None) groups))"

definition last_group_first_name :: "string \<Rightarrow> concept_group list \<Rightarrow> string option" where
  "last_group_first_name t groups =
     (case last_group t groups of
        None \<Rightarrow> None
      | Some g \<Rightarrow> map_option name (first_elem (the (conceptProperties g))))"

definition last_group_names :: "string \<Rightarrow> concept_group list \<Rightarrow> string list" where
  "last_group_names t groups =
     (case last_group t groups of
        None \<Rightarrow> []
      | Some g \<Rightarrow> map name (take 5 (the (conceptProperties g))))"

text \<open>What the two requests of the primary tool yielded: the concept groups of the name
  search and of the related-concepts request for a concept, \<open>None\<close> when the request
  failed or the body carries no group list. The addresses are written out.\<close>

definition name_search_groups :: "env \<Rightarrow> string \<Rightarrow> concept_group list option" where
  "name_search_groups env medicineName =
     (case axios_get env
             (''https://rxnav.nlm.nih.gov/REST/drugs.json?name='' @ encodeURIComponent medicineName)
             (Some 5000) of
        Inl e \<Rightarrow> None
      | Inr searchResponse \<Rightarrow> concept_groups (drugGroup (data searchResponse)))"

definition found_concepts :: "env \<Rightarrow> string \<Rightarrow> string \<Rightarrow> concept list" where
  "found_concepts env medicineName t =
     (case name_search_groups env medicineName of
        None \<Rightarrow> []
      | Some groups \<Rightarrow> concepts_of_type t groups)"

text \<open>The generic concept when one was found, the branded concept otherwise.\<close>

definition formulation_target :: "env \<Rightarrow> string \<Rightarrow> concept option" where
  "formulation_target env medicineName =
     or_else (first_elem (found_concepts env medicineName ''SCD''))
             (first_elem (found_concepts env medicineName ''SBD''))"

definition related_concept_groups :: "env \<Rightarrow> concept \<Rightarrow> concept_group list option" where
  "related_concept_groups env c =
     (case axios_get env
             (''https://rxnav.nlm.nih.gov/REST/rxcui/'' @ rxcui c @ ''/allrelated.json'')
             (Some 5000) of
        Inl e \<Rightarrow> None
      | Inr relatedResponse \<Rightarrow> concept_groups (allRelatedGroup (data relatedResponse)))"


text \<open>A payload carries an error message when it is the \<^verbatim>\<open>error\<close> member of the payload
  or of its \<^verbatim>\<open>indianPrices\<close> member: the two places where the tools put one.\<close>

definition carries_message :: "jsval \<Rightarrow> string \<Rightarrow> bool" where
  "carries_message payload m =
     (field ''error'' payload = JStr m \<or> field ''error'' (field ''indianPrices'' payload) = JStr m)"

text \<open>The entries of \<^verbatim>\<open>search_medicine\<close> and of \<^verbatim>\<open>get_available_dosages\<close>, written as one
  expression over the response.\<close>

definition all_search_entries :: "concept_group list \<Rightarrow> jsval list" where
  "all_search_entries groups =
     concat (map (\<lambda>g. case conceptProperties g of None \<Rightarrow> [] | Some cp \<Rightarrow> map (search_entry g) cp) groups)"

definition single_ingredient_generics :: "concept_group list \<Rightarrow> concept list" where
  "single_ingredient_generics groups =
     filter (\<lambda>d. \<not> str_includes (name d) '' / '') (concepts_of_type ''SCD'' groups)"

section \<open>Sample responses\<close>

definition lipitor_search :: response where
  "lipitor_search =
     \<lparr>data = \<lparr>drugGroup = Some \<lparr>conceptGroup = Some
        [\<lparr>tty = ''BN'', conceptProperties = None\<rparr>,
         \<lparr>tty = ''SBD'', conceptProperties = Some
            [\<lparr>rxcui = ''617320'', name = ''atorvastatin 20 MG Oral Tablet [Lipitor]''\<rparr>,
             \<lparr>rxcui = ''617318'', name = ''atorvastatin 10 MG Oral Tablet [Lipitor]''\<rparr>]\<rparr>,
         \<lparr>tty = ''SCD'', conceptProperties = Some
            [\<lparr>rxcui = ''617310'', name = ''atorvastatin 20 MG Oral Tablet''\<rparr>,
             \<lparr>rxcui = ''404011'', name = ''amlodipine 5 MG / atorvastatin 20 MG Oral Tablet''\<rparr>]\<rparr>]\<rparr>,
       allRelatedGroup = None\<rparr>\<rparr>"

definition lipitor_related :: response where
  "lipitor_related =
     \<lparr>data = \<lparr>drugGroup = None,
       allRelatedGroup = Some \<lparr>conceptGroup = Some
        [\<lparr>tty = ''BN'', conceptProperties = Some [\<lparr>rxcui = ''153165'', name = ''Lipitor''\<rparr>]\<rparr>,
         \<lparr>tty = ''DF'', conceptProperties = Some [\<lparr>rxcui = ''317541'', name = ''Oral Tablet''\<rparr>]\<rparr>,
         \<lparr>tty = ''IN'', conceptProperties = Some [\<lparr>rxcui = ''83367'', name = ''atorvastatin''\<rparr>]\<rparr>,
         \<lparr>tty = ''MIN'', conceptProperties = None\<rparr>,
         \<lparr>tty = ''SCD'', conceptProperties = Some
            [\<lparr>rxcui = ''617310'', name = ''atorvastatin 20 MG Oral Tablet''\<rparr>]\<rparr>]\<rparr>\<rparr>\<rparr>"

definition lipitor_prices :: generate_result where
  "lipitor_prices =
     \<lparr>gen_text = ''Lipitor 20mg: Rs 250 per strip (1mg). Atorva 20: Rs 90 per strip (Apollo).'',
      providerMetadata = Some \<lparr>google = Some \<lparr>groundingMetadata = Some
        \<lparr>groundingChunks = Some
           [\<lparr>web = Some \<lparr>uri = JStr ''https://www.1mg.com/a'', title = JStr ''1mg''\<rparr>\<rparr>,
            \<lparr>web = None\<rparr>,
            \<lparr>web = Some \<lparr>uri = JStr ''https://www.apollopharmacy.in/b'', title = JNull\<rparr>\<rparr>,
            \<lparr>web = Some \<lparr>uri = JStr ''https://janaushadhi.gov.in/c'', title = JUndefined\<rparr>\<rparr>],
         webSearchQueries = Some [''lipitor 20mg price india'']\<rparr>\<rparr>\<rparr>\<rparr>"

text \<open>A world where both services answer.\<close>

definition lipitor_env :: env where
  "lipitor_env =
     \<lparr>axios_get = (\<lambda>url timeout.
        if url = allrelated_url ''617310'' then Inr lipitor_related
        else if url = allrelated_url ''999'' then Inl (Error ''Request failed with status code 404'')
        else Inr lipitor_search),
      generateText = (\<lambda>prompt. Inr lipitor_prices),
      run_agent = (\<lambda>query. Inr (JStr ''Buy atorvastatin 20 MG Oral Tablet.''))\<rparr>"

text \<open>A world where every outbound call fails.\<close>

definition offline_env :: env where
  "offline_env =
     \<lparr>axios_get = (\<lambda>url timeout. Inl (Error ''timeout of 5000ms exceeded'')),
      generateText = (\<lambda>prompt. Inl (Error ''quota exceeded'')),
      run_agent = (\<lambda>query. Inl (Error ''connection refused''))\<rparr>"

text \<open>The vocabulary service times out while the price search answers.\<close>

definition vocabulary_down_env :: env where
  "vocabulary_down_env = lipitor_env\<lparr>axios_get := (\<lambda>url timeout. Inl (Error ''timeout of 5000ms exceeded''))\<rparr>"

text \<open>The name search answers and every other request is refused.\<close>

definition related_down_env :: env where
  "related_down_env =
     lipitor_env\<lparr>axios_get := (\<lambda>url timeout.
        if url = drugs_url ''Lipitor'' then Inr lipitor_search
        else Inl (Error ''Request failed with status code 503''))\<rparr>"


text \<open>A related-concepts body with two ingredient groups.\<close>

definition two_ingredient_groups :: "concept_group list" where
  "two_ingredient_groups =
     [\<lparr>tty = ''IN'', conceptProperties = Some [\<lparr>rxcui = ''83367'', name = ''atorvastatin''\<rparr>]\<rparr>,
      \<lparr>tty = ''IN'', conceptProperties = Some [\<lparr>rxcui = ''17767'', name = ''amlodipine''\<rparr>]\<rparr>]"

definition two_ingredient_env :: env where
  "two_ingredient_env =
     lipitor_env\<lparr>axios_get := (\<lambda>url timeout.
        if url = allrelated_url ''617310''
        then Inr \<lparr>data = \<lparr>drugGroup = None,
                   allRelatedGroup = Some \<lparr>conceptGroup = Some two_ingredient_groups\<rparr>\<rparr>\<rparr>
        else Inr lipitor_search)\<rparr>"

text \<open>A name search that answers with an empty list of groups, and one that answers
  without the member.\<close>

definition empty_list_env :: env where
  "empty_list_env =
     lipitor_env\<lparr>axios_get := (\<lambda>url timeout.
        Inr \<lparr>data = \<lparr>drugGroup = Some \<lparr>conceptGroup = Some []\<rparr>, allRelatedGroup = None\<rparr>\<rparr>)\<rparr>"

definition unknown_name_env :: env where
  "unknown_name_env =
     lipitor_env\<lparr>axios_get := (\<lambda>url timeout.
        Inr \<lparr>data = \<lparr>drugGroup = Some \<lparr>conceptGroup = None\<rparr>, allRelatedGroup = None\<rparr>\<rparr>)\<rparr>"

text \<open>A name search with twelve concepts in one group.\<close>

definition twelve_env :: env where
  "twelve_env =
     lipitor_env\<lparr>axios_get := (\<lambda>url timeout.
        Inr \<lparr>data = \<lparr>drugGroup = Some \<lparr>conceptGroup = Some
               [\<lparr>tty = ''SCD'', conceptProperties =
                   Some (replicate 12 \<lparr>rxcui = ''617310'', name = ''atorvastatin 20 MG Oral Tablet''\<rparr>)\<rparr>]\<rparr>,
             allRelatedGroup = None\<rparr>\<rparr>)\<rparr>"

section \<open>Facts about the two loops of the primary tool\<close>

lemma first_elem_append: "first_elem (xs @ ys) = or_else (first_elem xs) (first_elem ys)"
  by (cases xs) (simp_all add: first_elem_def or_else_def)

lemma first_seen_Nil: "first_seen t [] = None"
  by (simp add: first_seen_def concepts_of_type_def first_elem_def)

lemma first_seen_Cons:
  "first_seen t (g # gs) =
     or_else (if tty g = t then (case conceptProperties g of None \<Rightarrow> None | Some cp \<Rightarrow> first_elem cp) else None)
       (first_seen t gs)"
  by (simp add: first_seen_def concepts_of_type_def first_elem_append)
     (simp add: or_else_def first_elem_def split: option.splits)

lemma or_else_assoc: "or_else (or_else a b) c = or_else a (or_else b c)"
  by (simp add: or_else_def split: option.splits)

lemma or_else_None: "or_else None b = b" "or_else a None = a"
  by (simp_all add: or_else_def split: option.splits)

lemma scan_group_generic:
  "genericDrug (scan_group s g) = or_else (genericDrug s) (first_seen ''SCD'' [g])"
  by (auto simp: scan_group_def first_seen_Cons first_seen_Nil or_else_def Let_def split: option.splits)

lemma scan_group_branded:
  "brandedDrug (scan_group s g) = or_else (brandedDrug s) (first_seen ''SBD'' [g])"
  by (auto simp: scan_group_def first_seen_Cons first_seen_Nil or_else_def Let_def split: option.splits)

lemma scan_group_ingredient:
  "ingredient (scan_group s g) = or_else (ingredient s) (first_seen ''IN'' [g])"
  by (auto simp: scan_group_def first_seen_Cons first_seen_Nil or_else_def Let_def split: option.splits)

lemma first_seen_single_Cons: "first_seen t (g # gs) = or_else (first_seen t [g]) (first_seen t gs)"
  by (simp add: first_seen_Cons first_seen_Nil or_else_None)

lemma foldl_scan_generic:
  "genericDrug (foldl scan_group s groups) = or_else (genericDrug s) (first_seen ''SCD'' groups)"
proof (induction groups arbitrary: s)
  case Nil
  show ?case by (simp add: first_seen_Nil or_else_None)
next
  case (Cons g gs)
  have "genericDrug (foldl scan_group s (g # gs)) = or_else (genericDrug (scan_group s g)) (first_seen ''SCD'' gs)"
    using Cons.IH [of "scan_group s g"] by simp
  also have "\<dots> = or_else (genericDrug s) (or_else (first_seen ''SCD'' [g]) (first_seen ''SCD'' gs))"
    by (simp only: scan_group_generic or_else_assoc)
  finally show ?case by (simp only: first_seen_single_Cons [symmetric])
qed


lemma foldl_scan_branded:
  "brandedDrug (foldl scan_group s groups) = or_else (brandedDrug s) (first_seen ''SBD'' groups)"
proof (induction groups arbitrary: s)
  case Nil
  show ?case by (simp add: first_seen_Nil or_else_None)
next
  case (Cons g gs)
  have "brandedDrug (foldl scan_group s (g # gs)) = or_else (brandedDrug (scan_group s g)) (first_seen ''SBD'' gs)"
    using Cons.IH [of "scan_group s g"] by simp
  also have "\<dots> = or_else (brandedDrug s) (or_else (first_seen ''SBD'' [g]) (first_seen ''SBD'' gs))"
    by (simp only: scan_group_branded or_else_assoc)
  finally show ?case by (simp only: first_seen_single_Cons [symmetric])
qed

lemma foldl_scan_ingredient:
  "ingredient (foldl scan_group s groups) = or_else (ingredient s) (first_seen ''IN'' groups)"
proof (induction groups arbitrary: s)
  case Nil
  show ?case by (simp add: first_seen_Nil or_else_None)
next
  case (Cons g gs)
  have "ingredient (foldl scan_group s (g # gs)) = or_else (ingredient (scan_group s g)) (first_seen ''IN'' gs)"
    using Cons.IH [of "scan_group s g"] by simp
  also have "\<dots> = or_else (ingredient s) (or_else (first_seen ''IN'' [g]) (first_seen ''IN'' gs))"
    by (simp only: scan_group_ingredient or_else_assoc)
  finally show ?case by (simp only: first_seen_single_Cons [symmetric])
qed

lemma scan_groups_first_seen:
  "genericDrug (scan_groups groups) = first_seen ''SCD'' groups"
  "brandedDrug (scan_groups groups) = first_seen ''SBD'' groups"
  "ingredient (scan_groups groups) = first_seen ''IN'' groups"
  by (simp_all add: scan_groups_def foldl_scan_generic foldl_scan_branded foldl_scan_ingredient or_else_None)

lemma last_group_Nil: "last_group t [] = None"
  by (simp add: last_group_def first_elem_def)

lemma last_group_Cons:
  "last_group t (g # gs) =
     or_else (last_group t gs) (if tty g = t \<and> conceptProperties g \<noteq> None then Some g else None)"
  by (auto simp: last_group_def first_elem_append first_elem_def or_else_def split: list.splits)

lemma and_then_Inr: "and_then x f = Inr y \<longleftrightarrow> (\<exists>v. x = Inr v \<and> f v = Inr y)"
  by (cases x) (simp_all add: and_then_def)

lemma related_group_fields:
  assumes "related_group r g = Inr r'"
  shows "activeIngredient r' = (if tty g = ''IN'' \<and> conceptProperties g \<noteq> None
            then map_option name (first_elem (the (conceptProperties g))) else activeIngredient r)"
    and "genericName r' = (if tty g = ''SCD'' \<and> conceptProperties g \<noteq> None
            then map_option name (first_elem (the (conceptProperties g))) else genericName r)"
    and "dosageForm r' = (if tty g = ''DF'' \<and> conceptProperties g \<noteq> None
            then map_option name (first_elem (the (conceptProperties g))) else dosageForm r)"
    and "brandNames r' = (if tty g = ''BN'' \<and> conceptProperties g \<noteq> None
            then map name (take 5 (the (conceptProperties g))) else brandNames r)"
  using assms
  by (auto simp: related_group_def and_then_Inr name_of_first_def split: option.splits if_splits)


lemma last_group_Cons_case:
  "(case last_group t (g # gs) of None \<Rightarrow> d | Some h \<Rightarrow> F h) =
     (case last_group t gs of
        None \<Rightarrow> (if tty g = t \<and> conceptProperties g \<noteq> None then F g else d)
      | Some h \<Rightarrow> F h)"
  by (auto simp: last_group_Cons or_else_def split: option.splits)

lemma related_groups_fields:
  "related_groups gs r = Inr a \<Longrightarrow>
     activeIngredient a = (case last_group ''IN'' gs of None \<Rightarrow> activeIngredient r
        | Some g \<Rightarrow> map_option name (first_elem (the (conceptProperties g)))) \<and>
     genericName a = (case last_group ''SCD'' gs of None \<Rightarrow> genericName r
        | Some g \<Rightarrow> map_option name (first_elem (the (conceptProperties g)))) \<and>
     dosageForm a = (case last_group ''DF'' gs of None \<Rightarrow> dosageForm r
        | Some g \<Rightarrow> map_option name (first_elem (the (conceptProperties g)))) \<and>
     brandNames a = (case last_group ''BN'' gs of None \<Rightarrow> brandNames r
        | Some g \<Rightarrow> map name (take 5 (the (conceptProperties g))))"
proof (induction gs arbitrary: r)
  case Nil
  then show ?case by (simp add: last_group_Nil)
next
  case (Cons g gs)
  from Cons.prems obtain r1 where step: "related_group r g = Inr r1" and rest: "related_groups gs r1 = Inr a"
    by (auto simp: and_then_Inr)
  note ih = Cons.IH [OF rest]
  note f = related_group_fields [OF step]
  have 1: "activeIngredient a = (case last_group ''IN'' (g # gs) of None \<Rightarrow> activeIngredient r
        | Some g \<Rightarrow> map_option name (first_elem (the (conceptProperties g))))"
    unfolding last_group_Cons_case using ih f(1) by (auto split: option.splits)
  have 2: "genericName a = (case last_group ''SCD'' (g # gs) of None \<Rightarrow> genericName r
        | Some g \<Rightarrow> map_option name (first_elem (the (conceptProperties g))))"
    unfolding last_group_Cons_case using ih f(2) by (auto split: option.splits)
  have 3: "dosageForm a = (case last_group ''DF'' (g # gs) of None \<Rightarrow> dosageForm r
        | Some g \<Rightarrow> map_option name (first_elem (the (conceptProperties g))))"
    unfolding last_group_Cons_case using ih f(3) by (auto split: option.splits)
  have 4: "brandNames a = (case last_group ''BN'' (g # gs) of None \<Rightarrow> brandNames r
        | Some g \<Rightarrow> map name (take 5 (the (conceptProperties g))))"
    unfolding last_group_Cons_case using ih f(4) by (auto split: option.splits)
  from 1 2 3 4 show ?case by blast
qed

lemma related_groups_empty:
  assumes "related_groups gs empty_api_result = Inr a"
  shows "activeIngredient a = last_group_first_name ''IN'' gs"
    and "genericName a = last_group_first_name ''SCD'' gs"
    and "dosageForm a = last_group_first_name ''DF'' gs"
    and "brandNames a = last_group_names ''BN'' gs"
  using related_groups_fields [OF assms]
  by (simp_all add: empty_api_result_def last_group_first_name_def last_group_names_def split: option.splits)


lemma set_concepts_of_type:
  "set (concepts_of_type t gs) = {c. \<exists>g cp. g \<in> set gs \<and> tty g = t \<and> conceptProperties g = Some cp \<and> c \<in> set cp}"
proof (rule set_eqI)
  fix c
  show "c \<in> set (concepts_of_type t gs) \<longleftrightarrow>
        c \<in> {c. \<exists>g cp. g \<in> set gs \<and> tty g = t \<and> conceptProperties g = Some cp \<and> c \<in> set cp}"
  proof
    assume "c \<in> set (concepts_of_type t gs)"
    then obtain g where g: "g \<in> set gs" "tty g = t"
      and c: "c \<in> set (case conceptProperties g of None \<Rightarrow> [] | Some cp \<Rightarrow> cp)"
      by (auto simp: concepts_of_type_def split: if_splits)
    from c obtain cp where "conceptProperties g = Some cp" "c \<in> set cp"
      by (cases "conceptProperties g") auto
    with g show "c \<in> {c. \<exists>g cp. g \<in> set gs \<and> tty g = t \<and> conceptProperties g = Some cp \<and> c \<in> set cp}"
      by blast
  next
    assume "c \<in> {c. \<exists>g cp. g \<in> set gs \<and> tty g = t \<and> conceptProperties g = Some cp \<and> c \<in> set cp}"
    then obtain g cp where "g \<in> set gs" "tty g = t" "conceptProperties g = Some cp" "c \<in> set cp"
      by blast
    then show "c \<in> set (concepts_of_type t gs)"
      by (force simp: concepts_of_type_def)
  qed
qed





lemma name_search_groups_alt:
  "name_search_groups env n =
     (case axios_get env (drugs_url n) (Some 5000) of
        Inl e \<Rightarrow> None
      | Inr searchResponse \<Rightarrow> concept_groups (drugGroup (data searchResponse)))"
  by (simp add: name_search_groups_def drugs_url_def)

lemma related_concept_groups_alt:
  "related_concept_groups env c =
     (case axios_get env (allrelated_url (rxcui c)) (Some 5000) of
        Inl e \<Rightarrow> None
      | Inr relatedResponse \<Rightarrow> concept_groups (allRelatedGroup (data relatedResponse)))"
  by (simp add: related_concept_groups_def allrelated_url_def)

lemma formulation_target_groups:
  "name_search_groups env n = Some groups \<Longrightarrow>
     formulation_target env n = or_else (genericDrug (scan_groups groups)) (brandedDrug (scan_groups groups))"
  by (simp add: formulation_target_def found_concepts_def scan_groups_first_seen first_seen_def)




lemma rxnav_lookup_Some:
  assumes "api_data_after (snd (rxnav_lookup env n)) = Some a"
  shows "\<exists>c rgroups. formulation_target env n = Some c \<and> related_concept_groups env c = Some rgroups
           \<and> related_groups rgroups empty_api_result = Inr a"
proof (cases "name_search_groups env n")
  case None
  with assms show ?thesis
    by (auto simp: rxnav_lookup_def name_search_groups_alt api_data_after_def Let_def split: sum.splits option.splits)
next
  case (Some groups)
  with assms formulation_target_groups [OF Some] obtain c rr rgroups where
    "formulation_target env n = Some c"
    "axios_get env (allrelated_url (rxcui c)) (Some 5000) = Inr rr"
    "concept_groups (allRelatedGroup (data rr)) = Some rgroups"
    "related_groups rgroups empty_api_result = Inr a"
    by (auto simp: rxnav_lookup_def name_search_groups_alt api_data_after_def
          and_then_def Let_def split: sum.splits option.splits)
  then show ?thesis by (simp add: related_concept_groups_alt)
qed

section \<open>Facts about the merged payload\<close>

lemma payload_shape:
  "snd (findGenericWithPrices env n) =
     Inr (JObj [(''success'', JBool True),
                (''medicine'', JStr n),
                (''apiData'', api_to_js (api_data_after (snd (rxnav_lookup env n)))),
                (''indianPrices'', snd (price_search env n (api_data_after (snd (rxnav_lookup env n))))),
                (''tip'', JStr jan_aushadhi_tip)])"
  by (simp add: findGenericWithPrices_def Let_def)

lemma payload_calls:
  "fst (findGenericWithPrices env n) =
     fst (rxnav_lookup env n) @
     [GenerateText (searchPrompt n (salt_name (api_data_after (snd (rxnav_lookup env n))) n))]"
  by (simp add: findGenericWithPrices_def price_search_def Let_def split: sum.splits)

lemma price_search_not_null:
  "snd (price_search env n a) \<noteq> JNull \<and> snd (price_search env n a) \<noteq> JUndefined"
  by (simp add: price_search_def Let_def split: sum.splits)

lemma price_search_failure:
  "generateText env (searchPrompt n (salt_name a n)) = Inl e \<Longrightarrow>
     snd (price_search env n a) = JObj [(''error'', JStr (message e))]"
  by (simp add: price_search_def Let_def)

lemma price_search_success:
  "generateText env (searchPrompt n (salt_name a n)) = Inr res \<Longrightarrow>
     snd (price_search env n a) =
       JObj [(''data'', JStr (gen_text res)),
             (''sources'', JArr (extract_sources (grounding_of res))),
             (''searchQueries'', JArr (search_queries (grounding_of res)))]"
  by (simp add: price_search_def Let_def)

lemma rxnav_lookup_ignores_generateText:
  "rxnav_lookup (env\<lparr>generateText := g\<rparr>) n = rxnav_lookup env n"
  by (simp add: rxnav_lookup_def Let_def split: sum.splits option.splits)

lemma rxnav_lookup_all_fail:
  "rxnav_lookup (env\<lparr>axios_get := (\<lambda>url timeout. Inl e)\<rparr>) n = ([AxiosGet (drugs_url n) (Some 5000)], Inl e)"
  by (simp add: rxnav_lookup_def Let_def)

lemma price_search_ignores_axios:
  "price_search (env\<lparr>axios_get := f\<rparr>) n a = price_search env n a"
  by (simp add: price_search_def)

section \<open>Properties of \<^verbatim>\<open>find_generic_with_prices\<close>\<close>

text \<open>
  C1. The vocabulary lookup and the price search do not disturb each other. For every
  world and every medicine name the tool returns a payload (it never throws); the
  generation call is always issued, whatever the lookup did; the \<^verbatim>\<open>indianPrices\<close>
  member is never \<^verbatim>\<open>null\<close>: it is \<^verbatim>\<open>{error: message}\<close> when the generation call
  failed and carries the generated text otherwise; and \<^verbatim>\<open>apiData\<close> is what the lookup
  left, the same under every behaviour of the generation service.
\<close>

theorem lookup_and_price_search_independent:
  "\<exists>payload.
     snd (findGenericWithPrices env n) = Inr payload
     \<and> GenerateText (searchPrompt n (salt_name (api_data_after (snd (rxnav_lookup env n))) n))
         \<in> set (fst (findGenericWithPrices env n))
     \<and> field ''indianPrices'' payload \<noteq> JNull
     \<and> field ''indianPrices'' payload \<noteq> JUndefined
     \<and> (\<forall>e. generateText env (searchPrompt n (salt_name (api_data_after (snd (rxnav_lookup env n))) n)) = Inl e
            \<longrightarrow> field ''indianPrices'' payload = JObj [(''error'', JStr (message e))])
     \<and> (\<forall>res. generateText env (searchPrompt n (salt_name (api_data_after (snd (rxnav_lookup env n))) n)) = Inr res
            \<longrightarrow> field ''data'' (field ''indianPrices'' payload) = JStr (gen_text res))
     \<and> field ''apiData'' payload = api_to_js (api_data_after (snd (rxnav_lookup env n)))
     \<and> (\<forall>g. field ''apiData'' (payload_of (findGenericWithPrices (env\<lparr>generateText := g\<rparr>) n))
            = field ''apiData'' payload)"
proof -
  let ?a = "api_data_after (snd (rxnav_lookup env n))"
  let ?p = "JObj [(''success'', JBool True), (''medicine'', JStr n), (''apiData'', api_to_js ?a),
                  (''indianPrices'', snd (price_search env n ?a)), (''tip'', JStr jan_aushadhi_tip)]"
  have shape: "snd (findGenericWithPrices env n) = Inr ?p" by (rule payload_shape)
  have attempted: "GenerateText (searchPrompt n (salt_name ?a n)) \<in> set (fst (findGenericWithPrices env n))"
    by (simp add: payload_calls)
  have prices: "field ''indianPrices'' ?p = snd (price_search env n ?a)" by simp
  have api: "field ''apiData'' ?p = api_to_js ?a" by simp
  have other: "field ''apiData'' (payload_of (findGenericWithPrices (env\<lparr>generateText := g\<rparr>) n)) = api_to_js ?a" for g
    by (simp add: payload_of_def payload_shape rxnav_lookup_ignores_generateText)
  show ?thesis
  proof (intro exI conjI allI impI)
    show "snd (findGenericWithPrices env n) = Inr ?p" by (rule shape)
    show "GenerateText (searchPrompt n (salt_name ?a n)) \<in> set (fst (findGenericWithPrices env n))"
      by (rule attempted)
    show "field ''indianPrices'' ?p \<noteq> JNull"
      unfolding prices using price_search_not_null by blast
    show "field ''indianPrices'' ?p \<noteq> JUndefined"
      unfolding prices using price_search_not_null by blast
    show "field ''indianPrices'' ?p = JObj [(''error'', JStr (message e))]"
      if "generateText env (searchPrompt n (salt_name ?a n)) = Inl e" for e
      unfolding prices using that by (rule price_search_failure)
    show "field ''data'' (field ''indianPrices'' ?p) = JStr (gen_text res)"
      if "generateText env (searchPrompt n (salt_name ?a n)) = Inr res" for res
      unfolding prices price_search_success [OF that] by simp
    show "field ''apiData'' ?p = api_to_js ?a" by (rule api)
    show "field ''apiData'' (payload_of (findGenericWithPrices (env\<lparr>generateText := g\<rparr>) n)) = field ''apiData'' ?p" for g
      unfolding api by (rule other)
  qed
qed

theorem independence_witness:
  "(\<exists>payload. snd (findGenericWithPrices offline_env ''Lipitor'') = Inr payload
      \<and> field ''indianPrices'' payload = JObj [(''error'', JStr ''quota exceeded'')]
      \<and> field ''apiData'' payload = JNull)
   \<and> (\<exists>payload. snd (findGenericWithPrices lipitor_env ''Lipitor'') = Inr payload
      \<and> field ''data'' (field ''indianPrices'' payload) = JStr (gen_text lipitor_prices)
      \<and> field ''apiData'' (payload_of (findGenericWithPrices (lipitor_env\<lparr>generateText := (\<lambda>prompt. Inl (Error ''quota exceeded''))\<rparr>) ''Lipitor''))
          = field ''apiData'' payload)"
proof
  have down: "snd (rxnav_lookup offline_env ''Lipitor'') = Inl (Error ''timeout of 5000ms exceeded'')"
    by (simp add: rxnav_lookup_def offline_env_def Let_def)
  have fails: "generateText offline_env p = Inl (Error ''quota exceeded'')" for p
    by (simp add: offline_env_def)
  from lookup_and_price_search_independent [of offline_env "''Lipitor''"] fails
  show "\<exists>payload. snd (findGenericWithPrices offline_env ''Lipitor'') = Inr payload
      \<and> field ''indianPrices'' payload = JObj [(''error'', JStr ''quota exceeded'')]
      \<and> field ''apiData'' payload = JNull"
    by (auto simp: down api_data_after_def api_to_js_def)
next
  have answers: "generateText lipitor_env p = Inr lipitor_prices" for p
    by (simp add: lipitor_env_def)
  from lookup_and_price_search_independent [of lipitor_env "''Lipitor''"] answers
  show "\<exists>payload. snd (findGenericWithPrices lipitor_env ''Lipitor'') = Inr payload
      \<and> field ''data'' (field ''indianPrices'' payload) = JStr (gen_text lipitor_prices)
      \<and> field ''apiData'' (payload_of (findGenericWithPrices (lipitor_env\<lparr>generateText := (\<lambda>prompt. Inl (Error ''quota exceeded''))\<rparr>) ''Lipitor''))
          = field ''apiData'' payload"
    by auto
qed

text \<open>
  C8. The payload of the primary tool always has \<^verbatim>\<open>success: true\<close> and the static
  Jan Aushadhi tip, also when both services fail. When the vocabulary lookup throws,
  \<^verbatim>\<open>apiData\<close> is \<^verbatim>\<open>null\<close> and the error leaves no trace: the payload is the one
  returned when the lookup fails with any other error.
\<close>

theorem always_success_with_tip:
  "\<exists>payload.
     snd (findGenericWithPrices env n) = Inr payload
     \<and> field ''success'' payload = JBool True
     \<and> field ''tip'' payload = JStr jan_aushadhi_tip
     \<and> (\<forall>e. snd (rxnav_lookup env n) = Inl e \<longrightarrow>
           field ''apiData'' payload = JNull
           \<and> (\<forall>e'. snd (findGenericWithPrices (env\<lparr>axios_get := (\<lambda>url timeout. Inl e')\<rparr>) n) = Inr payload))"
proof -
  let ?a = "api_data_after (snd (rxnav_lookup env n))"
  let ?p = "JObj [(''success'', JBool True), (''medicine'', JStr n), (''apiData'', api_to_js ?a),
                  (''indianPrices'', snd (price_search env n ?a)), (''tip'', JStr jan_aushadhi_tip)]"
  have shape: "snd (findGenericWithPrices env n) = Inr ?p" by (rule payload_shape)
  have null: "field ''apiData'' ?p = JNull" if "snd (rxnav_lookup env n) = Inl e" for e
    using that by (simp add: api_data_after_def api_to_js_def)
  have same: "snd (findGenericWithPrices (env\<lparr>axios_get := (\<lambda>url timeout. Inl e')\<rparr>) n) = Inr ?p"
    if "snd (rxnav_lookup env n) = Inl e" for e e'
    using that
    by (simp add: payload_shape rxnav_lookup_all_fail price_search_ignores_axios api_data_after_def)
  have "field ''success'' ?p = JBool True" "field ''tip'' ?p = JStr jan_aushadhi_tip"
    by simp_all
  with shape null same show ?thesis by blast
qed

theorem always_success_witness:
  "\<exists>payload.
     snd (findGenericWithPrices offline_env ''Lipitor'') = Inr payload
     \<and> field ''success'' payload = JBool True
     \<and> field ''tip'' payload = JStr jan_aushadhi_tip
     \<and> field ''apiData'' payload = JNull
     \<and> snd (findGenericWithPrices (offline_env\<lparr>axios_get := (\<lambda>url timeout. Inl (Error ''Network Error''))\<rparr>) ''Lipitor'') = Inr payload"
proof -
  have down: "snd (rxnav_lookup offline_env ''Lipitor'') = Inl (Error ''timeout of 5000ms exceeded'')"
    by (simp add: rxnav_lookup_def offline_env_def Let_def)
  from always_success_with_tip [of offline_env "''Lipitor''"] down
  show ?thesis by auto
qed

lemma extract_sources_chunks:
  "groundingChunks m = Some chunks \<Longrightarrow>
     extract_sources (Some m) =
       map (\<lambda>w. JObj [(''title'', title w), (''url'', uri w)]) (take 5 (List.map_filter web chunks))"
  by (simp add: extract_sources_def List.map_filter_def take_map source_of_def)

lemma extract_sources_length: "length (extract_sources gm) \<le> 5"
  by (simp add: extract_sources_def split: option.splits)

lemma extract_sources_no_chunks:
  "gm = None \<or> (\<exists>m. gm = Some m \<and> groundingChunks m = None) \<Longrightarrow> extract_sources gm = []"
  by (auto simp: extract_sources_def)

lemma urls_differ: "allrelated_url x \<noteq> drugs_url n"
  by (simp add: allrelated_url_def drugs_url_def)




lemma lipitor_lookup:
  "snd (rxnav_lookup lipitor_env ''Lipitor'') =
     Inr (Some \<lparr>genericName = Some ''atorvastatin 20 MG Oral Tablet'', brandNames = [''Lipitor''],
                activeIngredient = Some ''atorvastatin'', dosageForm = Some ''Oral Tablet''\<rparr>)"
  by (simp add: rxnav_lookup_def lipitor_env_def urls_differ [symmetric] lipitor_search_def
        lipitor_related_def concept_groups_def scan_groups_def scan_group_def first_elem_def
        or_else_def Let_def related_group_def and_then_def name_of_first_def empty_api_result_def)


text \<open>
  C7. Citation extraction is a function of the grounding metadata alone. The list has
  at most five entries; when the metadata has a chunk list, it is made of the \<^verbatim>\<open>web\<close>
  members of the chunks that have one, in their order, cut after the fifth, each as
  \<^verbatim>\<open>{title, url}\<close> with the title and the uri copied as they are (a \<^verbatim>\<open>null\<close> title
  stays \<^verbatim>\<open>null\<close>); without metadata or without a chunk list it is empty; and the
  \<^verbatim>\<open>sources\<close> of the payload are this list, whatever the medicine name, the generated
  text and the vocabulary result are. Being a function of a value that the code only
  reads, it gives the same list each time it is applied.
\<close>

theorem citation_extraction_deterministic:
  "length (extract_sources gm) \<le> 5
   \<and> (\<forall>m chunks. gm = Some m \<and> groundingChunks m = Some chunks \<longrightarrow>
         extract_sources gm =
           map (\<lambda>w. JObj [(''title'', title w), (''url'', uri w)]) (take 5 (List.map_filter web chunks)))
   \<and> (gm = None \<or> (\<exists>m. gm = Some m \<and> groundingChunks m = None) \<longrightarrow> extract_sources gm = [])
   \<and> (\<forall>res. generateText env (searchPrompt n (salt_name (api_data_after (snd (rxnav_lookup env n))) n)) = Inr res
         \<longrightarrow> field ''sources'' (field ''indianPrices'' (payload_of (findGenericWithPrices env n)))
               = JArr (extract_sources (grounding_of res)))"
proof (intro conjI allI impI)
  show "length (extract_sources gm) \<le> 5" by (rule extract_sources_length)
next
  fix m chunks
  assume "gm = Some m \<and> groundingChunks m = Some chunks"
  then show "extract_sources gm =
           map (\<lambda>w. JObj [(''title'', title w), (''url'', uri w)]) (take 5 (List.map_filter web chunks))"
    by (simp add: extract_sources_chunks)
next
  assume "gm = None \<or> (\<exists>m. gm = Some m \<and> groundingChunks m = None)"
  then show "extract_sources gm = []" by (rule extract_sources_no_chunks)
next
  fix res
  assume "generateText env (searchPrompt n (salt_name (api_data_after (snd (rxnav_lookup env n))) n)) = Inr res"
  then show "field ''sources'' (field ''indianPrices'' (payload_of (findGenericWithPrices env n)))
               = JArr (extract_sources (grounding_of res))"
    by (simp add: payload_of_def payload_shape price_search_success)
qed

theorem citation_extraction_witness:
  "extract_sources (grounding_of lipitor_prices) =
     [JObj [(''title'', JStr ''1mg''), (''url'', JStr ''https://www.1mg.com/a'')],
      JObj [(''title'', JNull), (''url'', JStr ''https://www.apollopharmacy.in/b'')],
      JObj [(''title'', JUndefined), (''url'', JStr ''https://janaushadhi.gov.in/c'')]]
   \<and> extract_sources None = []
   \<and> field ''sources'' (field ''indianPrices'' (payload_of (findGenericWithPrices lipitor_env ''Lipitor'')))
       = JArr (extract_sources (grounding_of lipitor_prices))"
proof -
  let ?chunks = "[\<lparr>web = Some \<lparr>uri = JStr ''https://www.1mg.com/a'', title = JStr ''1mg''\<rparr>\<rparr>,
            \<lparr>web = None\<rparr>,
            \<lparr>web = Some \<lparr>uri = JStr ''https://www.apollopharmacy.in/b'', title = JNull\<rparr>\<rparr>,
            \<lparr>web = Some \<lparr>uri = JStr ''https://janaushadhi.gov.in/c'', title = JUndefined\<rparr>\<rparr>]"
  have gm: "grounding_of lipitor_prices =
      Some \<lparr>groundingChunks = Some ?chunks, webSearchQueries = Some [''lipitor 20mg price india'']\<rparr>"
    by (simp add: grounding_of_def lipitor_prices_def)
  have answers: "generateText lipitor_env p = Inr lipitor_prices" for p
    by (simp add: lipitor_env_def)
  note t = citation_extraction_deterministic [of "grounding_of lipitor_prices" lipitor_env "''Lipitor''"]
  from t gm have "extract_sources (grounding_of lipitor_prices) =
      map (\<lambda>w. JObj [(''title'', title w), (''url'', uri w)]) (take 5 (List.map_filter web ?chunks))"
    by simp
  then have 1: "extract_sources (grounding_of lipitor_prices) =
     [JObj [(''title'', JStr ''1mg''), (''url'', JStr ''https://www.1mg.com/a'')],
      JObj [(''title'', JNull), (''url'', JStr ''https://www.apollopharmacy.in/b'')],
      JObj [(''title'', JUndefined), (''url'', JStr ''https://janaushadhi.gov.in/c'')]]"
    by (simp add: List.map_filter_simps)
  from t answers have 2: "field ''sources'' (field ''indianPrices'' (payload_of (findGenericWithPrices lipitor_env ''Lipitor'')))
       = JArr (extract_sources (grounding_of lipitor_prices))"
    by blast
  from citation_extraction_deterministic [of None lipitor_env "''Lipitor''"]
  have 3: "extract_sources None = []" by blast
  from 1 2 3 show ?thesis by blast
qed









lemma concepts_of_type_filter:
  "concepts_of_type t groups =
     concat (map (\<lambda>g. the (conceptProperties g))
               (filter (\<lambda>g. tty g = t \<and> conceptProperties g \<noteq> None) groups))"
  by (induction groups) (auto simp: concepts_of_type_def)

lemma single_group_first_seen:
  assumes "length (filter (\<lambda>g. tty g = t \<and> conceptProperties g \<noteq> None) groups) \<le> 1"
  shows "last_group_first_name t groups = map_option name (first_seen t groups)"
    and "last_group_names t groups = map name (take 5 (concepts_of_type t groups))"
proof -
  let ?fs = "filter (\<lambda>g. tty g = t \<and> conceptProperties g \<noteq> None) groups"
  from assms consider "?fs = []" | g where "?fs = [g]"
    by (cases ?fs) (auto simp: Suc_le_eq)
  then have "last_group_first_name t groups = map_option name (first_seen t groups)
      \<and> last_group_names t groups = map name (take 5 (concepts_of_type t groups))"
  proof cases
    case 1
    then show ?thesis
      by (simp add: last_group_first_name_def last_group_names_def last_group_def first_seen_def
            concepts_of_type_filter first_elem_def)
  next
    case 2
    then show ?thesis
      by (simp add: last_group_first_name_def last_group_names_def last_group_def first_seen_def
            concepts_of_type_filter first_elem_def)
  qed
  then show "last_group_first_name t groups = map_option name (first_seen t groups)"
    and "last_group_names t groups = map name (take 5 (concepts_of_type t groups))" by simp_all
qed

lemma two_ingredient_lookup:
  "snd (rxnav_lookup two_ingredient_env ''Lipitor'') =
     Inr (Some \<lparr>genericName = None, brandNames = [],
                activeIngredient = Some ''amlodipine'', dosageForm = None\<rparr>)"
  by (simp add: rxnav_lookup_def two_ingredient_env_def lipitor_env_def urls_differ [symmetric]
        lipitor_search_def two_ingredient_groups_def concept_groups_def scan_groups_def
        scan_group_def first_elem_def or_else_def Let_def related_group_def and_then_def
        name_of_first_def empty_api_result_def)

text \<open>
  C5, as the claim states it, fails in the second loop. The related-concepts response
  below has two ingredient groups: the first ingredient concept seen is atorvastatin,
  and the payload names amlodipine, the first concept of the later group.
\<close>

theorem first_seen_counterexample:
  "map_option name (first_seen ''IN'' two_ingredient_groups) = Some ''atorvastatin''
   \<and> related_concept_groups two_ingredient_env \<lparr>rxcui = ''617310'', name = ''atorvastatin 20 MG Oral Tablet''\<rparr>
       = Some two_ingredient_groups
   \<and> field ''activeIngredient'' (field ''apiData'' (payload_of (findGenericWithPrices two_ingredient_env ''Lipitor'')))
       = JStr ''amlodipine''"
proof (intro conjI)
  show "map_option name (first_seen ''IN'' two_ingredient_groups) = Some ''atorvastatin''"
    by (simp add: first_seen_def concepts_of_type_def two_ingredient_groups_def first_elem_def)
  show "related_concept_groups two_ingredient_env \<lparr>rxcui = ''617310'', name = ''atorvastatin 20 MG Oral Tablet''\<rparr>
       = Some two_ingredient_groups"
    by (simp add: related_concept_groups_alt two_ingredient_env_def lipitor_env_def concept_groups_def)
  show "field ''activeIngredient'' (field ''apiData'' (payload_of (findGenericWithPrices two_ingredient_env ''Lipitor'')))
       = JStr ''amlodipine''"
    by (simp add: payload_of_def payload_shape two_ingredient_lookup api_data_after_def api_to_js_def
          str_or_null_def)
qed

text \<open>
  C5, amended. In the scan of the name search the selected generic, branded and
  ingredient concepts are each the first concept of their type in the order the service
  sent (first seen wins, nothing is sorted). In the scan of the related-concepts
  response each of \<^verbatim>\<open>activeIngredient\<close>, \<^verbatim>\<open>genericName\<close> and \<^verbatim>\<open>dosageForm\<close> is the name
  of the first concept of the last group of its type that carries a concept list, and
  \<^verbatim>\<open>brandNames\<close> are the first five names of the last such brand-name group. When a
  type has at most one such group, that is again the first concept seen.
\<close>

theorem selection_order:
  "genericDrug (scan_groups groups) = first_seen ''SCD'' groups
   \<and> brandedDrug (scan_groups groups) = first_seen ''SBD'' groups
   \<and> ingredient (scan_groups groups) = first_seen ''IN'' groups
   \<and> (\<forall>a. api_data_after (snd (rxnav_lookup env n)) = Some a \<longrightarrow>
         (\<exists>c rgroups. formulation_target env n = Some c
            \<and> related_concept_groups env c = Some rgroups
            \<and> activeIngredient a = last_group_first_name ''IN'' rgroups
            \<and> genericName a = last_group_first_name ''SCD'' rgroups
            \<and> dosageForm a = last_group_first_name ''DF'' rgroups
            \<and> brandNames a = last_group_names ''BN'' rgroups))
   \<and> (\<forall>t. length (filter (\<lambda>g. tty g = t \<and> conceptProperties g \<noteq> None) groups) \<le> 1 \<longrightarrow>
         last_group_first_name t groups = map_option name (first_seen t groups)
         \<and> last_group_names t groups = map name (take 5 (concepts_of_type t groups)))"
proof -
  have derived: "\<exists>c rgroups. formulation_target env n = Some c
            \<and> related_concept_groups env c = Some rgroups
            \<and> activeIngredient a = last_group_first_name ''IN'' rgroups
            \<and> genericName a = last_group_first_name ''SCD'' rgroups
            \<and> dosageForm a = last_group_first_name ''DF'' rgroups
            \<and> brandNames a = last_group_names ''BN'' rgroups"
    if "api_data_after (snd (rxnav_lookup env n)) = Some a" for a
  proof -
    from rxnav_lookup_Some [OF that] obtain c rgroups where
      c: "formulation_target env n = Some c" "related_concept_groups env c = Some rgroups"
      and r: "related_groups rgroups empty_api_result = Inr a" by blast
    from c related_groups_empty [OF r] show ?thesis by blast
  qed
  from scan_groups_first_seen [of groups] derived single_group_first_seen [of _ groups]
  show ?thesis by blast
qed

theorem selection_order_witness:
  "genericDrug (scan_groups two_ingredient_groups) = None
   \<and> ingredient (scan_groups two_ingredient_groups) = Some \<lparr>rxcui = ''83367'', name = ''atorvastatin''\<rparr>
   \<and> last_group_first_name ''IN'' two_ingredient_groups = Some ''amlodipine''
   \<and> last_group_first_name ''SCD'' two_ingredient_groups = None
   \<and> api_data_after (snd (rxnav_lookup lipitor_env ''Lipitor'')) =
       Some \<lparr>genericName = Some ''atorvastatin 20 MG Oral Tablet'', brandNames = [''Lipitor''],
             activeIngredient = Some ''atorvastatin'', dosageForm = Some ''Oral Tablet''\<rparr>"
proof -
  note t = selection_order [of two_ingredient_groups lipitor_env "''Lipitor''"]
  have fs: "first_seen ''SCD'' two_ingredient_groups = None"
    "first_seen ''IN'' two_ingredient_groups = Some \<lparr>rxcui = ''83367'', name = ''atorvastatin''\<rparr>"
    by (simp_all add: first_seen_def concepts_of_type_def two_ingredient_groups_def first_elem_def)
  from t fs have 1: "genericDrug (scan_groups two_ingredient_groups) = None"
    and 2: "ingredient (scan_groups two_ingredient_groups) = Some \<lparr>rxcui = ''83367'', name = ''atorvastatin''\<rparr>"
    by simp_all
  have "length (filter (\<lambda>g. tty g = ''SCD'' \<and> conceptProperties g \<noteq> None) two_ingredient_groups) \<le> 1"
    by (simp add: two_ingredient_groups_def)
  moreover from t have "length (filter (\<lambda>g. tty g = ''SCD'' \<and> conceptProperties g \<noteq> None) two_ingredient_groups) \<le> 1
      \<longrightarrow> last_group_first_name ''SCD'' two_ingredient_groups = map_option name (first_seen ''SCD'' two_ingredient_groups)"
    by blast
  ultimately have 4: "last_group_first_name ''SCD'' two_ingredient_groups = None"
    using fs by simp
  have 3: "last_group_first_name ''IN'' two_ingredient_groups = Some ''amlodipine''"
    by (simp add: last_group_first_name_def last_group_def two_ingredient_groups_def first_elem_def)
  have 5: "api_data_after (snd (rxnav_lookup lipitor_env ''Lipitor'')) =
       Some \<lparr>genericName = Some ''atorvastatin 20 MG Oral Tablet'', brandNames = [''Lipitor''],
             activeIngredient = Some ''atorvastatin'', dosageForm = Some ''Oral Tablet''\<rparr>"
    by (simp add: lipitor_lookup api_data_after_def)
  from 1 2 3 4 5 show ?thesis by blast
qed

section \<open>Properties of \<^verbatim>\<open>search_medicine\<close>\<close>

lemma foldl_push_entries:
  "foldl (\<lambda>res drug. res @ [f drug]) acc cp = acc @ map f cp"
  by (induction cp arbitrary: acc) simp_all

lemma push_group_append:
  "push_group acc g = acc @ (case conceptProperties g of None \<Rightarrow> [] | Some cp \<Rightarrow> map (search_entry g) cp)"
  by (simp add: push_group_def foldl_push_entries split: option.splits)

lemma foldl_push_group:
  "foldl push_group acc groups = acc @ all_search_entries groups"
proof (induction groups arbitrary: acc)
  case Nil
  show ?case by (simp add: all_search_entries_def)
next
  case (Cons g gs)
  have "all_search_entries (g # gs) =
      (case conceptProperties g of None \<Rightarrow> [] | Some cp \<Rightarrow> map (search_entry g) cp) @ all_search_entries gs"
    by (simp add: all_search_entries_def)
  with Cons.IH [of "push_group acc g"] show ?case
    by (simp add: push_group_append)
qed

lemma collect_results_entries: "collect_results groups = all_search_entries groups"
  by (simp add: collect_results_def foldl_push_group)

lemma length_all_search_entries:
  "length (all_search_entries groups) =
     (\<Sum>g\<leftarrow>groups. case conceptProperties g of None \<Rightarrow> 0 | Some cp \<Rightarrow> length cp)"
  by (induction groups) (simp_all add: all_search_entries_def split: option.splits)

lemma try_catch_returns:
  "(\<And>e. \<exists>p. handler e = Inr p) \<Longrightarrow> \<exists>p. snd (try_catch body handler) = Inr p"
  by (cases "snd body") (simp_all add: try_catch_def)

lemma try_catch_snd:
  "snd (try_catch body handler) = (case snd body of Inl e \<Rightarrow> handler e | Inr v \<Rightarrow> Inr v)"
  by (simp add: try_catch_def split: sum.splits)

lemma try_catch_fst: "fst (try_catch body handler) = fst body"
  by (simp add: try_catch_def split: sum.splits)

lemma searchMedicine_returns: "\<exists>p. snd (searchMedicine env n) = Inr p"
  unfolding searchMedicine_def by (rule try_catch_returns) (simp add: failure_payload_def)

lemma searchMedicine_found:
  assumes "axios_get env (drugs_url n) None = Inr resp"
    and "concept_groups (drugGroup (data resp)) = Some groups"
  shows "snd (searchMedicine env n) =
     Inr (JObj [(''success'', JBool True),
                (''searchTerm'', JStr n),
                (''results'', JArr (take 10 (all_search_entries groups))),
                (''totalFound'', JNum (int (length (all_search_entries groups))))])"
  using assms
  by (simp add: searchMedicine_def try_catch_snd searchMedicine_body_def Let_def collect_results_entries)

lemma searchMedicine_not_found:
  assumes "axios_get env (drugs_url n) None = Inr resp"
    and "concept_groups (drugGroup (data resp)) = None"
  shows "snd (searchMedicine env n) =
     Inr (JObj [(''success'', JBool False),
                (''message'', JStr (not_found_message n)),
                (''suggestion'', JStr name_suggestion)])"
  using assms
  by (simp add: searchMedicine_def try_catch_snd searchMedicine_body_def Let_def)

lemma searchMedicine_failed:
  assumes "axios_get env (drugs_url n) None = Inl e"
  shows "snd (searchMedicine env n) =
     Inr (JObj [(''success'', JBool False), (''error'', JStr (message e))])"
  using assms
  by (simp add: searchMedicine_def try_catch_snd searchMedicine_body_def Let_def failure_payload_def)

lemma twelve_answer:
  "axios_get twelve_env u t =
     Inr \<lparr>data = \<lparr>drugGroup = Some \<lparr>conceptGroup = Some
               [\<lparr>tty = ''SCD'', conceptProperties =
                   Some (replicate 12 \<lparr>rxcui = ''617310'', name = ''atorvastatin 20 MG Oral Tablet''\<rparr>)\<rparr>]\<rparr>,
             allRelatedGroup = None\<rparr>\<rparr>"
  by (simp add: twelve_env_def)

lemma suggestion_lists_mapping:
  "name_suggestion \<noteq> [] \<and> str_includes name_suggestion ''Paracetamol=Acetaminophen''"
  by (simp add: name_suggestion_def)

text \<open>
  C9. When the name search of \<^verbatim>\<open>search_medicine\<close> answers with a group list, the
  \<^verbatim>\<open>results\<close> member holds the first ten entries, group by group and concept by concept
  in the order of the response, so at most ten; \<^verbatim>\<open>totalFound\<close> is the number of all
  concepts of the response, which the returned list never exceeds and may fall short
  of.
\<close>

theorem results_capped_total_reported:
  "\<forall>resp groups.
     axios_get env (drugs_url n) None = Inr resp \<and> concept_groups (drugGroup (data resp)) = Some groups
     \<longrightarrow> field ''success'' (payload_of (searchMedicine env n)) = JBool True
       \<and> field ''results'' (payload_of (searchMedicine env n)) = JArr (take 10 (all_search_entries groups))
       \<and> length (take 10 (all_search_entries groups)) \<le> 10
       \<and> field ''totalFound'' (payload_of (searchMedicine env n)) = JNum (int (length (all_search_entries groups)))
       \<and> length (all_search_entries groups) =
           (\<Sum>g\<leftarrow>groups. case conceptProperties g of None \<Rightarrow> 0 | Some cp \<Rightarrow> length cp)
       \<and> length (take 10 (all_search_entries groups)) \<le> length (all_search_entries groups)"
proof (intro allI impI)
  fix resp groups
  assume "axios_get env (drugs_url n) None = Inr resp \<and> concept_groups (drugGroup (data resp)) = Some groups"
  then have p: "payload_of (searchMedicine env n) =
     JObj [(''success'', JBool True),
           (''searchTerm'', JStr n),
           (''results'', JArr (take 10 (all_search_entries groups))),
           (''totalFound'', JNum (int (length (all_search_entries groups))))]"
    by (simp add: payload_of_def searchMedicine_found)
  show "field ''success'' (payload_of (searchMedicine env n)) = JBool True
       \<and> field ''results'' (payload_of (searchMedicine env n)) = JArr (take 10 (all_search_entries groups))
       \<and> length (take 10 (all_search_entries groups)) \<le> 10
       \<and> field ''totalFound'' (payload_of (searchMedicine env n)) = JNum (int (length (all_search_entries groups)))
       \<and> length (all_search_entries groups) =
           (\<Sum>g\<leftarrow>groups. case conceptProperties g of None \<Rightarrow> 0 | Some cp \<Rightarrow> length cp)
       \<and> length (take 10 (all_search_entries groups)) \<le> length (all_search_entries groups)"
    unfolding p by (simp add: length_all_search_entries)
qed

theorem results_capped_witness:
  "field ''totalFound'' (payload_of (searchMedicine twelve_env ''atorvastatin'')) = JNum 12
   \<and> field ''results'' (payload_of (searchMedicine twelve_env ''atorvastatin'')) =
       JArr (replicate 10
         (JObj [(''rxcui'', JStr ''617310''),
                (''name'', JStr ''atorvastatin 20 MG Oral Tablet''),
                (''type'', JStr ''SCD''),
                (''typeDescription'', JStr ''Generic Drug (Recommended - Same quality, lower cost)'')]))"
proof -
  let ?c = "\<lparr>rxcui = ''617310'', name = ''atorvastatin 20 MG Oral Tablet''\<rparr>"
  let ?groups = "[\<lparr>tty = ''SCD'', conceptProperties = Some (replicate 12 ?c)\<rparr>]"
  have g: "concept_groups (drugGroup (data \<lparr>data = \<lparr>drugGroup = Some \<lparr>conceptGroup = Some ?groups\<rparr>,
             allRelatedGroup = None\<rparr>\<rparr>)) = Some ?groups"
    by (simp add: concept_groups_def)
  have e: "all_search_entries ?groups =
      replicate 12 (JObj [(''rxcui'', JStr ''617310''),
                (''name'', JStr ''atorvastatin 20 MG Oral Tablet''),
                (''type'', JStr ''SCD''),
                (''typeDescription'', JStr ''Generic Drug (Recommended - Same quality, lower cost)'')])"
    by (simp add: all_search_entries_def search_entry_def getTypeDescription_def descriptions_def)
  from results_capped_total_reported [of twelve_env "''atorvastatin''"] twelve_answer g
  have "field ''results'' (payload_of (searchMedicine twelve_env ''atorvastatin'')) = JArr (take 10 (all_search_entries ?groups))
       \<and> field ''totalFound'' (payload_of (searchMedicine twelve_env ''atorvastatin'')) = JNum (int (length (all_search_entries ?groups)))"
    by blast
  then show ?thesis unfolding e by simp
qed

text \<open>
  C6, as the claim states it, fails for a response whose list of concept groups is
  empty: the test \<^verbatim>\<open>!response.data.drugGroup?.conceptGroup\<close> is false for an empty
  array, and the tool reports success with no result.
\<close>

theorem empty_group_list_counterexample:
  "concept_groups (drugGroup (data \<lparr>data = \<lparr>drugGroup = Some \<lparr>conceptGroup = Some []\<rparr>, allRelatedGroup = None\<rparr>\<rparr>)) = Some []
   \<and> axios_get empty_list_env (drugs_url ''Xyzzy'') None =
       Inr \<lparr>data = \<lparr>drugGroup = Some \<lparr>conceptGroup = Some []\<rparr>, allRelatedGroup = None\<rparr>\<rparr>
   \<and> snd (searchMedicine empty_list_env ''Xyzzy'') =
       Inr (JObj [(''success'', JBool True), (''searchTerm'', JStr ''Xyzzy''),
                  (''results'', JArr []), (''totalFound'', JNum 0)])"
proof -
  have a: "axios_get empty_list_env (drugs_url ''Xyzzy'') None =
       Inr \<lparr>data = \<lparr>drugGroup = Some \<lparr>conceptGroup = Some []\<rparr>, allRelatedGroup = None\<rparr>\<rparr>"
    by (simp add: empty_list_env_def)
  have g: "concept_groups (drugGroup (data \<lparr>data = \<lparr>drugGroup = Some \<lparr>conceptGroup = Some []\<rparr>, allRelatedGroup = None\<rparr>\<rparr>)) = Some []"
    by (simp add: concept_groups_def)
  from searchMedicine_found [OF a g] a g show ?thesis
    by (simp add: all_search_entries_def)
qed

text \<open>
  C6, amended. \<^verbatim>\<open>search_medicine\<close> never throws. When the response of the name search
  carries no \<^verbatim>\<open>conceptGroup\<close> member (the \<^verbatim>\<open>drugGroup\<close> or its \<^verbatim>\<open>conceptGroup\<close> is
  missing), it returns \<^verbatim>\<open>success: false\<close> with a message and the suggestion, a
  non-empty string that lists the mapping Paracetamol=Acetaminophen. When the member is
  an empty list, it returns \<^verbatim>\<open>success: true\<close> with no result and a total of zero.
\<close>

theorem not_found_with_suggestion:
  "(\<exists>p. snd (searchMedicine env n) = Inr p)
   \<and> (\<forall>resp. axios_get env (drugs_url n) None = Inr resp \<and> concept_groups (drugGroup (data resp)) = None
        \<longrightarrow> snd (searchMedicine env n) =
              Inr (JObj [(''success'', JBool False),
                         (''message'', JStr (not_found_message n)),
                         (''suggestion'', JStr name_suggestion)]))
   \<and> (\<forall>resp. axios_get env (drugs_url n) None = Inr resp \<and> concept_groups (drugGroup (data resp)) = Some []
        \<longrightarrow> snd (searchMedicine env n) =
              Inr (JObj [(''success'', JBool True), (''searchTerm'', JStr n),
                         (''results'', JArr []), (''totalFound'', JNum 0)]))
   \<and> name_suggestion \<noteq> []
   \<and> str_includes name_suggestion ''Paracetamol=Acetaminophen''"
proof (intro conjI allI impI)
  show "\<exists>p. snd (searchMedicine env n) = Inr p" by (rule searchMedicine_returns)
next
  fix resp
  assume "axios_get env (drugs_url n) None = Inr resp \<and> concept_groups (drugGroup (data resp)) = None"
  then show "snd (searchMedicine env n) =
              Inr (JObj [(''success'', JBool False),
                         (''message'', JStr (not_found_message n)),
                         (''suggestion'', JStr name_suggestion)])"
    by (simp add: searchMedicine_not_found)
next
  fix resp
  assume "axios_get env (drugs_url n) None = Inr resp \<and> concept_groups (drugGroup (data resp)) = Some []"
  then have "snd (searchMedicine env n) =
     Inr (JObj [(''success'', JBool True),
                (''searchTerm'', JStr n),
                (''results'', JArr (take 10 (all_search_entries []))),
                (''totalFound'', JNum (int (length (all_search_entries []))))])"
    using searchMedicine_found by blast
  then show "snd (searchMedicine env n) =
              Inr (JObj [(''success'', JBool True), (''searchTerm'', JStr n),
                         (''results'', JArr []), (''totalFound'', JNum 0)])"
    by (simp add: all_search_entries_def)
next
  show "name_suggestion \<noteq> []" using suggestion_lists_mapping by blast
  show "str_includes name_suggestion ''Paracetamol=Acetaminophen''" using suggestion_lists_mapping by blast
qed

theorem not_found_witness:
  "snd (searchMedicine unknown_name_env ''Xyzzy'') =
     Inr (JObj [(''success'', JBool False),
                (''message'', JStr (not_found_message ''Xyzzy'')),
                (''suggestion'', JStr name_suggestion)])
   \<and> snd (searchMedicine empty_list_env ''Xyzzy'') =
     Inr (JObj [(''success'', JBool True), (''searchTerm'', JStr ''Xyzzy''),
                (''results'', JArr []), (''totalFound'', JNum 0)])"
proof -
  have a: "axios_get unknown_name_env (drugs_url ''Xyzzy'') None =
       Inr \<lparr>data = \<lparr>drugGroup = Some \<lparr>conceptGroup = None\<rparr>, allRelatedGroup = None\<rparr>\<rparr>"
    by (simp add: unknown_name_env_def)
  have g: "concept_groups (drugGroup (data \<lparr>data = \<lparr>drugGroup = Some \<lparr>conceptGroup = None\<rparr>, allRelatedGroup = None\<rparr>\<rparr>)) = None"
    by (simp add: concept_groups_def)
  have b: "axios_get empty_list_env (drugs_url ''Xyzzy'') None =
       Inr \<lparr>data = \<lparr>drugGroup = Some \<lparr>conceptGroup = Some []\<rparr>, allRelatedGroup = None\<rparr>\<rparr>"
    by (simp add: empty_list_env_def)
  have h: "concept_groups (drugGroup (data \<lparr>data = \<lparr>drugGroup = Some \<lparr>conceptGroup = Some []\<rparr>, allRelatedGroup = None\<rparr>\<rparr>)) = Some []"
    by (simp add: concept_groups_def)
  from not_found_with_suggestion [of unknown_name_env "''Xyzzy''"] a g
  have 1: "snd (searchMedicine unknown_name_env ''Xyzzy'') =
     Inr (JObj [(''success'', JBool False),
                (''message'', JStr (not_found_message ''Xyzzy'')),
                (''suggestion'', JStr name_suggestion)])"
    by blast
  from not_found_with_suggestion [of empty_list_env "''Xyzzy''"] b h
  have 2: "snd (searchMedicine empty_list_env ''Xyzzy'') =
     Inr (JObj [(''success'', JBool True), (''searchTerm'', JStr ''Xyzzy''),
                (''results'', JArr []), (''totalFound'', JNum 0)])"
    by blast
  from 1 2 show ?thesis by blast
qed

section \<open>Properties of \<^verbatim>\<open>get_available_dosages\<close>\<close>

lemma starts_with_iff: "starts_with s p \<longleftrightarrow> (\<exists>post. s = p @ post)"
  by (induction s p rule: starts_with.induct) auto

lemma str_includes_iff: "str_includes s sub \<longleftrightarrow> (\<exists>pre post. s = pre @ sub @ post)"
proof (induction s)
  case Nil
  show ?case by auto
next
  case (Cons c cs)
  show ?case
  proof
    assume "str_includes (c # cs) sub"
    then consider "starts_with (c # cs) sub" | "str_includes cs sub" by auto
    then show "\<exists>pre post. c # cs = pre @ sub @ post"
    proof cases
      case 1
      then obtain post where "c # cs = sub @ post" by (auto simp: starts_with_iff)
      then have "c # cs = [] @ sub @ post" by simp
      then show ?thesis by blast
    next
      case 2
      with Cons.IH obtain pre post where "cs = pre @ sub @ post" by blast
      then have "c # cs = (c # pre) @ sub @ post" by simp
      then show ?thesis by blast
    qed
  next
    assume "\<exists>pre post. c # cs = pre @ sub @ post"
    then obtain pre post where eq: "c # cs = pre @ sub @ post" by blast
    show "str_includes (c # cs) sub"
    proof (cases pre)
      case Nil
      with eq have "starts_with (c # cs) sub" by (auto simp: starts_with_iff)
      then show ?thesis by simp
    next
      case (Cons a pre')
      with eq have "cs = pre' @ sub @ post" by simp
      with Cons.IH have "str_includes cs sub" by blast
      then show ?thesis by simp
    qed
  qed
qed

lemma foldl_push_dosage:
  "foldl push_dosage acc cp =
     acc @ map name_rxcui (filter (\<lambda>d. \<not> str_includes (name d) '' / '') cp)"
  by (induction cp arbitrary: acc) (simp_all add: push_dosage_def)

lemma concepts_of_type_single:
  "concepts_of_type t [g] =
     (if tty g = t then (case conceptProperties g of None \<Rightarrow> [] | Some cp \<Rightarrow> cp) else [])"
  by (simp add: concepts_of_type_def)

lemma dosage_group_append:
  "dosage_group acc g =
     acc @ map name_rxcui (filter (\<lambda>d. \<not> str_includes (name d) '' / '') (concepts_of_type ''SCD'' [g]))"
proof (cases "tty g = ''SCD''")
  case False
  then have "dosage_group acc g = acc" "concepts_of_type ''SCD'' [g] = []"
    by (simp_all add: dosage_group_def concepts_of_type_single)
  then show ?thesis by simp
next
  case True
  show ?thesis
  proof (cases "conceptProperties g")
    case None
    with True have "dosage_group acc g = acc" "concepts_of_type ''SCD'' [g] = []"
      by (simp_all add: dosage_group_def concepts_of_type_single)
    then show ?thesis by simp
  next
    case (Some cp)
    with True have "dosage_group acc g = foldl push_dosage acc cp" "concepts_of_type ''SCD'' [g] = cp"
      by (simp_all add: dosage_group_def concepts_of_type_single)
    then show ?thesis by (simp add: foldl_push_dosage)
  qed
qed

lemma concepts_of_type_Cons:
  "concepts_of_type t (g # gs) = concepts_of_type t [g] @ concepts_of_type t gs"
  by (simp add: concepts_of_type_def)

lemma foldl_dosage_group:
  "foldl dosage_group acc groups = acc @ map name_rxcui (single_ingredient_generics groups)"
proof (induction groups arbitrary: acc)
  case Nil
  show ?case by (simp add: single_ingredient_generics_def concepts_of_type_def)
next
  case (Cons g gs)
  have "single_ingredient_generics (g # gs) =
      filter (\<lambda>d. \<not> str_includes (name d) '' / '') (concepts_of_type ''SCD'' [g])
      @ single_ingredient_generics gs"
    unfolding single_ingredient_generics_def
    by (subst concepts_of_type_Cons) simp
  with Cons.IH [of "dosage_group acc g"] show ?case
    by (simp add: dosage_group_append)
qed

lemma getAvailableDosages_found:
  assumes "axios_get env (drugs_url n) None = Inr resp"
    and "concept_groups (drugGroup (data resp)) = Some groups"
  shows "snd (getAvailableDosages env n) =
     Inr (JObj [(''success'', JBool True),
                (''ingredient'', JStr n),
                (''availableGenericFormulations'', JArr (map name_rxcui (single_ingredient_generics groups))),
                (''note'', JStr dosages_note)])"
  using assms
  by (simp add: getAvailableDosages_def try_catch_snd getAvailableDosages_body_def Let_def
        foldl_dosage_group)

lemma lipitor_search_answer:
  "axios_get lipitor_env (drugs_url n) t = Inr lipitor_search"
  by (simp add: lipitor_env_def urls_differ [symmetric])

lemma lipitor_single_ingredient:
  "single_ingredient_generics
     [\<lparr>tty = ''BN'', conceptProperties = None\<rparr>,
      \<lparr>tty = ''SBD'', conceptProperties = Some
         [\<lparr>rxcui = ''617320'', name = ''atorvastatin 20 MG Oral Tablet [Lipitor]''\<rparr>,
          \<lparr>rxcui = ''617318'', name = ''atorvastatin 10 MG Oral Tablet [Lipitor]''\<rparr>]\<rparr>,
      \<lparr>tty = ''SCD'', conceptProperties = Some
         [\<lparr>rxcui = ''617310'', name = ''atorvastatin 20 MG Oral Tablet''\<rparr>,
          \<lparr>rxcui = ''404011'', name = ''amlodipine 5 MG / atorvastatin 20 MG Oral Tablet''\<rparr>]\<rparr>]
   = [\<lparr>rxcui = ''617310'', name = ''atorvastatin 20 MG Oral Tablet''\<rparr>]"
  by (simp add: single_ingredient_generics_def concepts_of_type_def)

text \<open>
  C10. When the name search of \<^verbatim>\<open>get_available_dosages\<close> answers with a group list,
  \<^verbatim>\<open>availableGenericFormulations\<close> lists, in the order of the response, exactly the
  concepts of the generic-formulation (SCD) groups whose name does not contain
  \<^verbatim>\<open>" / "\<close>: every listed concept comes from an SCD group and is no combination, and
  no such concept is left out. Concepts of other groups are not listed.
\<close>

theorem only_single_ingredient_generics:
  "\<forall>resp groups.
     axios_get env (drugs_url n) None = Inr resp \<and> concept_groups (drugGroup (data resp)) = Some groups
     \<longrightarrow> field ''availableGenericFormulations'' (payload_of (getAvailableDosages env n))
           = JArr (map name_rxcui (single_ingredient_generics groups))
       \<and> (\<forall>d \<in> set (single_ingredient_generics groups).
             (\<exists>g cp. g \<in> set groups \<and> tty g = ''SCD'' \<and> conceptProperties g = Some cp \<and> d \<in> set cp)
             \<and> \<not> (\<exists>pre post. name d = pre @ '' / '' @ post))
       \<and> (\<forall>g cp d. g \<in> set groups \<and> tty g = ''SCD'' \<and> conceptProperties g = Some cp \<and> d \<in> set cp
             \<and> \<not> (\<exists>pre post. name d = pre @ '' / '' @ post)
             \<longrightarrow> d \<in> set (single_ingredient_generics groups))"
proof (intro allI impI)
  fix resp groups
  assume a: "axios_get env (drugs_url n) None = Inr resp \<and> concept_groups (drugGroup (data resp)) = Some groups"
  then have 1: "field ''availableGenericFormulations'' (payload_of (getAvailableDosages env n))
           = JArr (map name_rxcui (single_ingredient_generics groups))"
    by (simp add: payload_of_def getAvailableDosages_found)
  have mem: "d \<in> set (single_ingredient_generics groups) \<longleftrightarrow>
      (\<exists>g cp. g \<in> set groups \<and> tty g = ''SCD'' \<and> conceptProperties g = Some cp \<and> d \<in> set cp)
      \<and> \<not> (\<exists>pre post. name d = pre @ '' / '' @ post)" for d
    unfolding single_ingredient_generics_def
    by (simp only: set_filter mem_Collect_eq set_concepts_of_type str_includes_iff)
  from 1 mem show "field ''availableGenericFormulations'' (payload_of (getAvailableDosages env n))
           = JArr (map name_rxcui (single_ingredient_generics groups))
       \<and> (\<forall>d \<in> set (single_ingredient_generics groups).
             (\<exists>g cp. g \<in> set groups \<and> tty g = ''SCD'' \<and> conceptProperties g = Some cp \<and> d \<in> set cp)
             \<and> \<not> (\<exists>pre post. name d = pre @ '' / '' @ post))
       \<and> (\<forall>g cp d. g \<in> set groups \<and> tty g = ''SCD'' \<and> conceptProperties g = Some cp \<and> d \<in> set cp
             \<and> \<not> (\<exists>pre post. name d = pre @ '' / '' @ post)
             \<longrightarrow> d \<in> set (single_ingredient_generics groups))"
    by blast
qed

theorem only_single_ingredient_witness:
  "field ''availableGenericFormulations'' (payload_of (getAvailableDosages lipitor_env ''Lipitor''))
     = JArr [JObj [(''name'', JStr ''atorvastatin 20 MG Oral Tablet''), (''rxcui'', JStr ''617310'')]]"
proof -
  let ?groups = "[\<lparr>tty = ''BN'', conceptProperties = None\<rparr>,
      \<lparr>tty = ''SBD'', conceptProperties = Some
         [\<lparr>rxcui = ''617320'', name = ''atorvastatin 20 MG Oral Tablet [Lipitor]''\<rparr>,
          \<lparr>rxcui = ''617318'', name = ''atorvastatin 10 MG Oral Tablet [Lipitor]''\<rparr>]\<rparr>,
      \<lparr>tty = ''SCD'', conceptProperties = Some
         [\<lparr>rxcui = ''617310'', name = ''atorvastatin 20 MG Oral Tablet''\<rparr>,
          \<lparr>rxcui = ''404011'', name = ''amlodipine 5 MG / atorvastatin 20 MG Oral Tablet''\<rparr>]\<rparr>]"
  have g: "concept_groups (drugGroup (data lipitor_search)) = Some ?groups"
    by (simp add: lipitor_search_def concept_groups_def)
  from only_single_ingredient_generics [of lipitor_env "''Lipitor''"] lipitor_search_answer g
  have "field ''availableGenericFormulations'' (payload_of (getAvailableDosages lipitor_env ''Lipitor''))
           = JArr (map name_rxcui (single_ingredient_generics ?groups))"
    by blast
  then show ?thesis
    unfolding lipitor_single_ingredient by (simp add: name_rxcui_def)
qed

section \<open>Properties of the HTTP endpoint\<close>

lemma main_calls:
  "fst (main env q) = (if truthy q then [RunAgent q] else [])"
  by (simp add: main_def split: sum.splits)

lemma api_search_rejects:
  "req_body \<noteq> JUndefined \<Longrightarrow> req_body \<noteq> JNull \<Longrightarrow> \<not> truthy (field ''query'' req_body) \<Longrightarrow>
     api_search env req_body = ([], \<lparr>status = 400, json = JObj [(''error'', JStr ''Query is required'')]\<rparr>)"
  by (simp add: api_search_def)

lemma api_search_calls:
  "fst (api_search env req_body) =
     (if req_body \<noteq> JUndefined \<and> req_body \<noteq> JNull \<and> truthy (field ''query'' req_body)
      then [Main (field ''query'' req_body), RunAgent (field ''query'' req_body)]
      else [])"
  by (simp add: api_search_def Let_def main_calls split: sum.splits)

text \<open>
  C2. For a request body as the JSON middleware leaves it (an object, never
  \<open>undefined\<close> or \<^verbatim>\<open>null\<close>) whose \<^verbatim>\<open>query\<close> member is missing, empty or otherwise
  falsy, the handler answers with status 400 and \<^verbatim>\<open>{error: "Query is required"}\<close> and
  calls nothing: neither \<^verbatim>\<open>main\<close> nor the agent run appears in its log. \<^verbatim>\<open>main\<close> is
  called only with the truthy \<^verbatim>\<open>query\<close> of the body, and the agent runs only inside
  such a call.
\<close>

theorem empty_query_rejected:
  "(req_body \<noteq> JUndefined \<and> req_body \<noteq> JNull \<and> \<not> truthy (field ''query'' req_body)
      \<longrightarrow> api_search env req_body =
            ([], \<lparr>status = 400, json = JObj [(''error'', JStr ''Query is required'')]\<rparr>))
   \<and> (\<forall>kvs. map_of kvs ''query'' = None \<longrightarrow> \<not> truthy (field ''query'' (JObj kvs)))
   \<and> \<not> truthy (JStr [])
   \<and> (\<forall>q. Main q \<in> set (fst (api_search env req_body))
          \<longrightarrow> q = field ''query'' req_body \<and> truthy q \<and> q \<noteq> JStr [] \<and> q \<noteq> JUndefined)
   \<and> (\<forall>q. RunAgent q \<in> set (fst (api_search env req_body))
          \<longrightarrow> Main q \<in> set (fst (api_search env req_body)))
   \<and> (req_body \<noteq> JUndefined \<and> req_body \<noteq> JNull \<and> truthy (field ''query'' req_body)
      \<longrightarrow> fst (api_search env req_body) =
            [Main (field ''query'' req_body), RunAgent (field ''query'' req_body)])"
proof (intro conjI allI impI)
  assume "req_body \<noteq> JUndefined \<and> req_body \<noteq> JNull \<and> \<not> truthy (field ''query'' req_body)"
  then show "api_search env req_body =
            ([], \<lparr>status = 400, json = JObj [(''error'', JStr ''Query is required'')]\<rparr>)"
    by (simp add: api_search_rejects)
next
  fix kvs :: "(string \<times> jsval) list"
  assume "map_of kvs ''query'' = None"
  then show "\<not> truthy (field ''query'' (JObj kvs))" by simp
next
  show "\<not> truthy (JStr [])" by simp
next
  fix q
  assume "Main q \<in> set (fst (api_search env req_body))"
  then have "q = field ''query'' req_body \<and> truthy q"
    by (simp add: api_search_calls split: if_splits)
  then show "q = field ''query'' req_body" "truthy q" "q \<noteq> JStr []" "q \<noteq> JUndefined"
    by auto
next
  fix q
  assume "RunAgent q \<in> set (fst (api_search env req_body))"
  then show "Main q \<in> set (fst (api_search env req_body))"
    by (simp add: api_search_calls split: if_splits)
next
  assume "req_body \<noteq> JUndefined \<and> req_body \<noteq> JNull \<and> truthy (field ''query'' req_body)"
  then show "fst (api_search env req_body) =
            [Main (field ''query'' req_body), RunAgent (field ''query'' req_body)]"
    by (simp add: api_search_calls)
qed

theorem empty_query_witness:
  "api_search lipitor_env (JObj [(''query'', JStr [])]) =
     ([], \<lparr>status = 400, json = JObj [(''error'', JStr ''Query is required'')]\<rparr>)
   \<and> api_search lipitor_env (JObj []) =
     ([], \<lparr>status = 400, json = JObj [(''error'', JStr ''Query is required'')]\<rparr>)
   \<and> fst (api_search lipitor_env (JObj [(''query'', JStr ''Lipitor 20mg'')])) =
     [Main (JStr ''Lipitor 20mg''), RunAgent (JStr ''Lipitor 20mg'')]"
proof -
  have 1: "api_search lipitor_env (JObj [(''query'', JStr [])]) =
     ([], \<lparr>status = 400, json = JObj [(''error'', JStr ''Query is required'')]\<rparr>)"
    using empty_query_rejected [of "JObj [(''query'', JStr [])]" lipitor_env] by simp
  have 2: "api_search lipitor_env (JObj []) =
     ([], \<lparr>status = 400, json = JObj [(''error'', JStr ''Query is required'')]\<rparr>)"
    using empty_query_rejected [of "JObj []" lipitor_env] by simp
  have 3: "fst (api_search lipitor_env (JObj [(''query'', JStr ''Lipitor 20mg'')])) =
     [Main (JStr ''Lipitor 20mg''), RunAgent (JStr ''Lipitor 20mg'')]"
    using empty_query_rejected [of "JObj [(''query'', JStr ''Lipitor 20mg'')]" lipitor_env] by simp
  from 1 2 3 show ?thesis by blast
qed

section \<open>Failures of the outside world in all seven tools\<close>

lemma failure_payload_returns: "\<exists>p. failure_payload e = Inr p"
  by (simp add: failure_payload_def)

lemma getMedicineDetails_returns: "\<exists>p. snd (getMedicineDetails env rx) = Inr p"
  unfolding getMedicineDetails_def by (rule try_catch_returns) (rule failure_payload_returns)

lemma findGenericEquivalent_returns: "\<exists>p. snd (findGenericEquivalent env b) = Inr p"
  unfolding findGenericEquivalent_def by (rule try_catch_returns) (rule failure_payload_returns)

lemma getAvailableDosages_returns: "\<exists>p. snd (getAvailableDosages env i) = Inr p"
  unfolding getAvailableDosages_def by (rule try_catch_returns) (rule failure_payload_returns)

lemma webSearchMedicine_returns: "\<exists>p. snd (webSearchMedicine env q) = Inr p"
  unfolding webSearchMedicine_def by (rule try_catch_returns) simp

lemma searchIndiaMedicine_returns: "\<exists>p. snd (searchIndiaMedicine env n) = Inr p"
  unfolding searchIndiaMedicine_def by (rule try_catch_returns) (rule failure_payload_returns)

lemma findGenericWithPrices_returns: "\<exists>p. snd (findGenericWithPrices env n) = Inr p"
  by (simp add: payload_shape)

lemma getMedicineDetails_failed:
  "axios_get env (allrelated_url rx) None = Inl e \<Longrightarrow>
     snd (getMedicineDetails env rx) = Inr (JObj [(''success'', JBool False), (''error'', JStr (message e))])"
  by (simp add: getMedicineDetails_def try_catch_snd getMedicineDetails_body_def Let_def failure_payload_def)

lemma getAvailableDosages_failed:
  "axios_get env (drugs_url i) None = Inl e \<Longrightarrow>
     snd (getAvailableDosages env i) = Inr (JObj [(''success'', JBool False), (''error'', JStr (message e))])"
  by (simp add: getAvailableDosages_def try_catch_snd getAvailableDosages_body_def Let_def failure_payload_def)

lemma findGenericEquivalent_thrown:
  "snd (findGenericEquivalent_body env b) = Inl e \<Longrightarrow>
     snd (findGenericEquivalent env b) = Inr (JObj [(''success'', JBool False), (''error'', JStr (message e))])"
  by (simp add: findGenericEquivalent_def try_catch_snd failure_payload_def)

lemma findGenericEquivalent_first_failed:
  "axios_get env (drugs_url b) None = Inl e \<Longrightarrow> snd (findGenericEquivalent_body env b) = Inl e"
  by (simp add: findGenericEquivalent_body_def Let_def)

lemma findGenericEquivalent_second_failed:
  assumes "axios_get env (drugs_url b) None = Inr resp"
    and "concept_groups (drugGroup (data resp)) = Some groups"
    and "equivalent_target groups = Inr (Some p)"
    and "rxcui p \<noteq> []"
    and "axios_get env (allrelated_url (rxcui p)) None = Inl e"
  shows "snd (findGenericEquivalent_body env b) = Inl e"
  using assms by (simp add: findGenericEquivalent_body_def Let_def)

lemma webSearchMedicine_failed:
  "generateText env (webSearchPrompt q) = Inl e \<Longrightarrow>
     snd (webSearchMedicine env q) =
       Inr (JObj [(''success'', JBool False), (''error'', JStr (message e)),
                  (''suggestion'', JStr ''Try rephrasing your search query or check your internet connection.'')])"
  by (simp add: webSearchMedicine_def try_catch_snd webSearchMedicine_body_def Let_def)

lemma searchIndiaMedicine_failed:
  "generateText env (indiaSearchPrompt n) = Inl e \<Longrightarrow>
     snd (searchIndiaMedicine env n) = Inr (JObj [(''success'', JBool False), (''error'', JStr (message e))])"
  by (simp add: searchIndiaMedicine_def try_catch_snd searchIndiaMedicine_body_def Let_def failure_payload_def)

lemma prices_failed:
  "generateText env (searchPrompt n (salt_name (api_data_after (snd (rxnav_lookup env n))) n)) = Inl e \<Longrightarrow>
     field ''indianPrices'' (payload_of (findGenericWithPrices env n)) = JObj [(''error'', JStr (message e))]"
  by (simp add: payload_of_def payload_shape price_search_failure)

lemma lookup_failed:
  "snd (rxnav_lookup env n) = Inl e \<Longrightarrow>
     field ''apiData'' (payload_of (findGenericWithPrices env n)) = JNull
     \<and> field ''success'' (payload_of (findGenericWithPrices env n)) = JBool True
     \<and> field ''error'' (payload_of (findGenericWithPrices env n)) = JUndefined"
  by (simp add: payload_of_def payload_shape api_data_after_def api_to_js_def)

lemma lipitor_equivalent_target:
  "equivalent_target
     [\<lparr>tty = ''BN'', conceptProperties = None\<rparr>,
      \<lparr>tty = ''SBD'', conceptProperties = Some
         [\<lparr>rxcui = ''617320'', name = ''atorvastatin 20 MG Oral Tablet [Lipitor]''\<rparr>,
          \<lparr>rxcui = ''617318'', name = ''atorvastatin 10 MG Oral Tablet [Lipitor]''\<rparr>]\<rparr>,
      \<lparr>tty = ''SCD'', conceptProperties = Some
         [\<lparr>rxcui = ''617310'', name = ''atorvastatin 20 MG Oral Tablet''\<rparr>,
          \<lparr>rxcui = ''404011'', name = ''amlodipine 5 MG / atorvastatin 20 MG Oral Tablet''\<rparr>]\<rparr>]
   = Inr (Some \<lparr>rxcui = ''617320'', name = ''atorvastatin 20 MG Oral Tablet [Lipitor]''\<rparr>)"
  by (simp add: equivalent_target_def first_elem_def)

text \<open>
  C3, as the claim states it, fails in the primary tool: when the vocabulary service
  times out, the payload reports success, its \<^verbatim>\<open>apiData\<close> is \<^verbatim>\<open>null\<close>, and the message
  of the error is in neither place where a tool puts one. The \<^verbatim>\<open>catch\<close> block of the
  lookup only writes the message to the console.
\<close>

theorem message_dropped_counterexample:
  "axios_get vocabulary_down_env (drugs_url ''Lipitor'') (Some 5000) = Inl (Error ''timeout of 5000ms exceeded'')
   \<and> field ''success'' (payload_of (findGenericWithPrices vocabulary_down_env ''Lipitor'')) = JBool True
   \<and> field ''apiData'' (payload_of (findGenericWithPrices vocabulary_down_env ''Lipitor'')) = JNull
   \<and> field ''data'' (field ''indianPrices'' (payload_of (findGenericWithPrices vocabulary_down_env ''Lipitor'')))
       = JStr ''Lipitor 20mg: Rs 250 per strip (1mg). Atorva 20: Rs 90 per strip (Apollo).''
   \<and> \<not> carries_message (payload_of (findGenericWithPrices vocabulary_down_env ''Lipitor''))
         ''timeout of 5000ms exceeded''"
proof -
  have down: "axios_get vocabulary_down_env u t = Inl (Error ''timeout of 5000ms exceeded'')" for u t
    by (simp add: vocabulary_down_env_def)
  have lookup: "snd (rxnav_lookup vocabulary_down_env ''Lipitor'') = Inl (Error ''timeout of 5000ms exceeded'')"
    by (simp add: rxnav_lookup_def down Let_def)
  have gen: "generateText vocabulary_down_env p = Inr lipitor_prices" for p
    by (simp add: vocabulary_down_env_def lipitor_env_def)
  have prices: "snd (price_search vocabulary_down_env ''Lipitor'' None) =
      JObj [(''data'', JStr (gen_text lipitor_prices)),
            (''sources'', JArr (extract_sources (grounding_of lipitor_prices))),
            (''searchQueries'', JArr (search_queries (grounding_of lipitor_prices)))]"
    by (simp add: price_search_success gen)
  have gt: "gen_text lipitor_prices = ''Lipitor 20mg: Rs 250 per strip (1mg). Atorva 20: Rs 90 per strip (Apollo).''"
    by (simp add: lipitor_prices_def)
  show ?thesis
    by (simp add: down payload_of_def payload_shape lookup api_data_after_def api_to_js_def prices
          gt carries_message_def)
qed

text \<open>
  C3, amended. No failure of the vocabulary service or of the generation service is
  thrown past a tool: each of the seven tools returns a payload in every world. In the
  six backup tools a failed call gives \<^verbatim>\<open>{success: false, error: message}\<close> with the
  message of the underlying error (\<^verbatim>\<open>web_search_medicine\<close> adds a suggestion). In the
  primary tool a failed generation call gives \<^verbatim>\<open>indianPrices = {error: message}\<close>, and
  a failed vocabulary lookup leaves \<^verbatim>\<open>apiData\<close> \<^verbatim>\<open>null\<close> in a payload with
  \<^verbatim>\<open>success: true\<close> and no \<^verbatim>\<open>error\<close> member.
\<close>

theorem failures_stay_inside_tools:
  "(\<exists>p. snd (searchMedicine env x) = Inr p)
   \<and> (\<exists>p. snd (getMedicineDetails env x) = Inr p)
   \<and> (\<exists>p. snd (findGenericEquivalent env x) = Inr p)
   \<and> (\<exists>p. snd (getAvailableDosages env x) = Inr p)
   \<and> (\<exists>p. snd (findGenericWithPrices env x) = Inr p)
   \<and> (\<exists>p. snd (webSearchMedicine env x) = Inr p)
   \<and> (\<exists>p. snd (searchIndiaMedicine env x) = Inr p)
   \<and> (\<forall>e. axios_get env (drugs_url x) None = Inl e \<longrightarrow>
          snd (searchMedicine env x) = Inr (JObj [(''success'', JBool False), (''error'', JStr (message e))])
          \<and> snd (getAvailableDosages env x) = Inr (JObj [(''success'', JBool False), (''error'', JStr (message e))])
          \<and> snd (findGenericEquivalent env x) = Inr (JObj [(''success'', JBool False), (''error'', JStr (message e))]))
   \<and> (\<forall>e. axios_get env (allrelated_url x) None = Inl e \<longrightarrow>
          snd (getMedicineDetails env x) = Inr (JObj [(''success'', JBool False), (''error'', JStr (message e))]))
   \<and> (\<forall>e resp groups p.
          axios_get env (drugs_url x) None = Inr resp
          \<and> concept_groups (drugGroup (data resp)) = Some groups
          \<and> equivalent_target groups = Inr (Some p) \<and> rxcui p \<noteq> []
          \<and> axios_get env (allrelated_url (rxcui p)) None = Inl e \<longrightarrow>
          snd (findGenericEquivalent env x) = Inr (JObj [(''success'', JBool False), (''error'', JStr (message e))]))
   \<and> (\<forall>e. generateText env (webSearchPrompt x) = Inl e \<longrightarrow>
          snd (webSearchMedicine env x) =
            Inr (JObj [(''success'', JBool False), (''error'', JStr (message e)),
                       (''suggestion'', JStr ''Try rephrasing your search query or check your internet connection.'')]))
   \<and> (\<forall>e. generateText env (indiaSearchPrompt x) = Inl e \<longrightarrow>
          snd (searchIndiaMedicine env x) = Inr (JObj [(''success'', JBool False), (''error'', JStr (message e))]))
   \<and> (\<forall>e. generateText env (searchPrompt x (salt_name (api_data_after (snd (rxnav_lookup env x))) x)) = Inl e \<longrightarrow>
          field ''indianPrices'' (payload_of (findGenericWithPrices env x)) = JObj [(''error'', JStr (message e))])
   \<and> (\<forall>e. snd (rxnav_lookup env x) = Inl e \<longrightarrow>
          field ''apiData'' (payload_of (findGenericWithPrices env x)) = JNull
          \<and> field ''success'' (payload_of (findGenericWithPrices env x)) = JBool True
          \<and> field ''error'' (payload_of (findGenericWithPrices env x)) = JUndefined)"
proof (intro conjI allI impI)
  show "\<exists>p. snd (searchMedicine env x) = Inr p" by (rule searchMedicine_returns)
  show "\<exists>p. snd (getMedicineDetails env x) = Inr p" by (rule getMedicineDetails_returns)
  show "\<exists>p. snd (findGenericEquivalent env x) = Inr p" by (rule findGenericEquivalent_returns)
  show "\<exists>p. snd (getAvailableDosages env x) = Inr p" by (rule getAvailableDosages_returns)
  show "\<exists>p. snd (findGenericWithPrices env x) = Inr p" by (rule findGenericWithPrices_returns)
  show "\<exists>p. snd (webSearchMedicine env x) = Inr p" by (rule webSearchMedicine_returns)
  show "\<exists>p. snd (searchIndiaMedicine env x) = Inr p" by (rule searchIndiaMedicine_returns)
next
  fix e assume a: "axios_get env (drugs_url x) None = Inl e"
  show "snd (searchMedicine env x) = Inr (JObj [(''success'', JBool False), (''error'', JStr (message e))])"
    using a by (rule searchMedicine_failed)
  show "snd (getAvailableDosages env x) = Inr (JObj [(''success'', JBool False), (''error'', JStr (message e))])"
    using a by (rule getAvailableDosages_failed)
  show "snd (findGenericEquivalent env x) = Inr (JObj [(''success'', JBool False), (''error'', JStr (message e))])"
    using findGenericEquivalent_first_failed [OF a] by (rule findGenericEquivalent_thrown)
next
  fix e assume "axios_get env (allrelated_url x) None = Inl e"
  then show "snd (getMedicineDetails env x) = Inr (JObj [(''success'', JBool False), (''error'', JStr (message e))])"
    by (rule getMedicineDetails_failed)
next
  fix e resp groups p
  assume "axios_get env (drugs_url x) None = Inr resp
          \<and> concept_groups (drugGroup (data resp)) = Some groups
          \<and> equivalent_target groups = Inr (Some p) \<and> rxcui p \<noteq> []
          \<and> axios_get env (allrelated_url (rxcui p)) None = Inl e"
  then have "snd (findGenericEquivalent_body env x) = Inl e"
    using findGenericEquivalent_second_failed by blast
  then show "snd (findGenericEquivalent env x) = Inr (JObj [(''success'', JBool False), (''error'', JStr (message e))])"
    by (rule findGenericEquivalent_thrown)
next
  fix e assume "generateText env (webSearchPrompt x) = Inl e"
  then show "snd (webSearchMedicine env x) =
            Inr (JObj [(''success'', JBool False), (''error'', JStr (message e)),
                       (''suggestion'', JStr ''Try rephrasing your search query or check your internet connection.'')])"
    by (rule webSearchMedicine_failed)
next
  fix e assume "generateText env (indiaSearchPrompt x) = Inl e"
  then show "snd (searchIndiaMedicine env x) = Inr (JObj [(''success'', JBool False), (''error'', JStr (message e))])"
    by (rule searchIndiaMedicine_failed)
next
  fix e assume "generateText env (searchPrompt x (salt_name (api_data_after (snd (rxnav_lookup env x))) x)) = Inl e"
  then show "field ''indianPrices'' (payload_of (findGenericWithPrices env x)) = JObj [(''error'', JStr (message e))]"
    by (rule prices_failed)
next
  fix e assume a: "snd (rxnav_lookup env x) = Inl e"
  show "field ''apiData'' (payload_of (findGenericWithPrices env x)) = JNull"
    using lookup_failed [OF a] by blast
  show "field ''success'' (payload_of (findGenericWithPrices env x)) = JBool True"
    using lookup_failed [OF a] by blast
  show "field ''error'' (payload_of (findGenericWithPrices env x)) = JUndefined"
    using lookup_failed [OF a] by blast
qed

theorem failures_stay_inside_witness:
  "snd (searchMedicine offline_env ''Lipitor'') =
     Inr (JObj [(''success'', JBool False), (''error'', JStr ''timeout of 5000ms exceeded'')])
   \<and> snd (getMedicineDetails offline_env ''Lipitor'') =
     Inr (JObj [(''success'', JBool False), (''error'', JStr ''timeout of 5000ms exceeded'')])
   \<and> snd (findGenericEquivalent related_down_env ''Lipitor'') =
     Inr (JObj [(''success'', JBool False), (''error'', JStr ''Request failed with status code 503'')])
   \<and> snd (webSearchMedicine offline_env ''Lipitor'') =
     Inr (JObj [(''success'', JBool False), (''error'', JStr ''quota exceeded''),
                (''suggestion'', JStr ''Try rephrasing your search query or check your internet connection.'')])
   \<and> snd (searchIndiaMedicine offline_env ''Lipitor'') =
     Inr (JObj [(''success'', JBool False), (''error'', JStr ''quota exceeded'')])
   \<and> field ''indianPrices'' (payload_of (findGenericWithPrices offline_env ''Lipitor'')) =
     JObj [(''error'', JStr ''quota exceeded'')]
   \<and> field ''apiData'' (payload_of (findGenericWithPrices offline_env ''Lipitor'')) = JNull"
proof -
  note off = failures_stay_inside_tools [of offline_env "''Lipitor''"]
  note rel = failures_stay_inside_tools [of related_down_env "''Lipitor''"]
  have ax: "axios_get offline_env u t = Inl (Error ''timeout of 5000ms exceeded'')" for u t
    by (simp add: offline_env_def)
  have gen: "generateText offline_env p = Inl (Error ''quota exceeded'')" for p
    by (simp add: offline_env_def)
  have lookup: "snd (rxnav_lookup offline_env ''Lipitor'') = Inl (Error ''timeout of 5000ms exceeded'')"
    by (simp add: rxnav_lookup_def ax Let_def)
  from off ax have 1: "snd (searchMedicine offline_env ''Lipitor'') =
     Inr (JObj [(''success'', JBool False), (''error'', JStr ''timeout of 5000ms exceeded'')])"
    by simp
  from off ax have 2: "snd (getMedicineDetails offline_env ''Lipitor'') =
     Inr (JObj [(''success'', JBool False), (''error'', JStr ''timeout of 5000ms exceeded'')])"
    by simp
  from off gen have 4: "snd (webSearchMedicine offline_env ''Lipitor'') =
     Inr (JObj [(''success'', JBool False), (''error'', JStr ''quota exceeded''),
                (''suggestion'', JStr ''Try rephrasing your search query or check your internet connection.'')])"
    by simp
  from off gen have 5: "snd (searchIndiaMedicine offline_env ''Lipitor'') =
     Inr (JObj [(''success'', JBool False), (''error'', JStr ''quota exceeded'')])"
    by simp
  from off gen have 6: "field ''indianPrices'' (payload_of (findGenericWithPrices offline_env ''Lipitor'')) =
     JObj [(''error'', JStr ''quota exceeded'')]"
    by simp
  from off lookup have 7: "field ''apiData'' (payload_of (findGenericWithPrices offline_env ''Lipitor'')) = JNull"
    by simp
  have s: "axios_get related_down_env (drugs_url ''Lipitor'') None = Inr lipitor_search"
    by (simp add: related_down_env_def)
  have g: "concept_groups (drugGroup (data lipitor_search)) = Some
     [\<lparr>tty = ''BN'', conceptProperties = None\<rparr>,
      \<lparr>tty = ''SBD'', conceptProperties = Some
         [\<lparr>rxcui = ''617320'', name = ''atorvastatin 20 MG Oral Tablet [Lipitor]''\<rparr>,
          \<lparr>rxcui = ''617318'', name = ''atorvastatin 10 MG Oral Tablet [Lipitor]''\<rparr>]\<rparr>,
      \<lparr>tty = ''SCD'', conceptProperties = Some
         [\<lparr>rxcui = ''617310'', name = ''atorvastatin 20 MG Oral Tablet''\<rparr>,
          \<lparr>rxcui = ''404011'', name = ''amlodipine 5 MG / atorvastatin 20 MG Oral Tablet''\<rparr>]\<rparr>]"
    by (simp add: lipitor_search_def concept_groups_def)
  have r: "axios_get related_down_env (allrelated_url (rxcui \<lparr>rxcui = ''617320'', name = ''atorvastatin 20 MG Oral Tablet [Lipitor]''\<rparr>)) None
      = Inl (Error ''Request failed with status code 503'')"
    by (simp add: related_down_env_def urls_differ)
  have ne: "rxcui \<lparr>rxcui = ''617320'', name = ''atorvastatin 20 MG Oral Tablet [Lipitor]''\<rparr> \<noteq> []"
    by simp
  from rel s g lipitor_equivalent_target ne r
  have 3: "snd (findGenericEquivalent related_down_env ''Lipitor'') =
     Inr (JObj [(''success'', JBool False), (''error'', JStr (message (Error ''Request failed with status code 503'')))])"
    by blast
  from 1 2 3 4 5 6 7 show ?thesis by simp
qed

end
